theory Spec2Isabelle
  imports Complex_Main "HOL-Library.AList"
begin

section \<open>Text primitives of the interpreter\<close>

text \<open>
  The almanac format is ASCII, and a \<^typ>\<open>string\<close> is a list of bytes, so the
  model reads ASCII text. The white space that \<^verbatim>\<open>str.strip\<close>, \<^verbatim>\<open>int\<close>,
  \<^verbatim>\<open>float\<close> and the regular expression class \<^verbatim>\<open>\s\<close> recognise in
  ASCII is tab, line feed, vertical tab, form feed, carriage return, the four separators
  0x1C to 0x1F and the blank; the digits of \<^verbatim>\<open>\d\<close> are 0 to 9.
\<close>

definition is_space :: "char \<Rightarrow> bool" where
  "is_space c = (let n = (of_char c :: nat) in (9 \<le> n \<and> n \<le> 13) \<or> (28 \<le> n \<and> n \<le> 32))"

definition is_digit :: "char \<Rightarrow> bool" where
  "is_digit c = (let n = (of_char c :: nat) in 48 \<le> n \<and> n \<le> 57)"

definition strip :: "string \<Rightarrow> string" where
  "strip s = rev (dropWhile is_space (rev (dropWhile is_space s)))"

definition startswith :: "string \<Rightarrow> string \<Rightarrow> bool" where
  "startswith s p = (take (length p) s = p)"

text \<open>
  \<^verbatim>\<open>line.split(":", 1)[1]\<close>: the text after the first colon. A line with no colon
  has a one-element split, and the index raises; that is the value \<open>None\<close>.
\<close>

fun after_colon :: "string \<Rightarrow> string option" where
  "after_colon [] = None"
| "after_colon (c # cs) = (if c = CHR '':'' then Some cs else after_colon cs)"

definition digit_val :: "char \<Rightarrow> nat" where
  "digit_val c = of_char c - 48"

definition nat_of_digits :: "string \<Rightarrow> nat" where
  "nat_of_digits ds = foldl (\<lambda>a c. 10 * a + digit_val c) 0 ds"

text \<open>
  The digit part of a numeric literal: digits, with single underscores allowed between
  two digits. The result is the digits without the underscores; \<open>None\<close> is a
  malformed part.
\<close>

fun digitpart_tail :: "string \<Rightarrow> string option" where
  "digitpart_tail [] = Some []"
| "digitpart_tail [c] = (if is_digit c then Some [c] else None)"
| "digitpart_tail (c # d # ds) =
     (if is_digit c then map_option (Cons c) (digitpart_tail (d # ds))
      else if c = CHR ''_'' \<and> is_digit d then map_option (Cons d) (digitpart_tail ds)
      else None)"

definition digitpart :: "string \<Rightarrow> string option" where
  "digitpart s =
     (case s of [] \<Rightarrow> None
      | c # cs \<Rightarrow> if is_digit c then map_option (Cons c) (digitpart_tail cs) else None)"

definition signed_digits :: "string \<Rightarrow> int option" where
  "signed_digits s =
     (case s of [] \<Rightarrow> None
      | c # cs \<Rightarrow>
          if c = CHR ''-'' then map_option (\<lambda>ds. - int (nat_of_digits ds)) (digitpart cs)
          else if c = CHR ''+'' then map_option (\<lambda>ds. int (nat_of_digits ds)) (digitpart cs)
          else map_option (\<lambda>ds. int (nat_of_digits ds)) (digitpart (c # cs)))"

text \<open>
  \<^verbatim>\<open>int(x)\<close> on a string, base ten: surrounding white space is dropped, then an
  optional sign and a digit part. \<open>None\<close> is the \<^verbatim>\<open>ValueError\<close>. On ASCII
  text the two conversions drop only the white space of C, which lacks the separators 0x1C
  to 0x1F. The interpreter's configurable limit on the number of digits is not modelled.
\<close>

definition is_c_space :: "char \<Rightarrow> bool" where
  "is_c_space c = (let n = (of_char c :: nat) in (9 \<le> n \<and> n \<le> 13) \<or> n = 32)"

definition c_strip :: "string \<Rightarrow> string" where
  "c_strip s = rev (dropWhile is_c_space (rev (dropWhile is_c_space s)))"

definition py_int :: "string \<Rightarrow> int option" where
  "py_int s = signed_digits (c_strip s)"

text \<open>
  \<^verbatim>\<open>float(x)\<close> on a string. The value of a finite literal is kept as the exact
  rational the literal denotes: the interpreter returns the double nearest to it, so
  two literals of the same rational give the same double. The rounding itself belongs to
  the interpreter and is not part of the model.
\<close>

datatype pyfloat = Finite rat | Infinity bool | NaN

definition lower :: "string \<Rightarrow> string" where
  "lower s = map (\<lambda>c. let n = (of_char c :: nat) in
                        if 65 \<le> n \<and> n \<le> 90 then char_of (n + 32) else c) s"

definition pow10 :: "int \<Rightarrow> rat" where
  "pow10 k = (if 0 \<le> k then 10 ^ nat k else 1 / 10 ^ nat (- k))"

definition number :: "string \<Rightarrow> rat option" where
  "number m =
     (let ip = takeWhile (\<lambda>c. c \<noteq> CHR ''.'') m;
          r = dropWhile (\<lambda>c. c \<noteq> CHR ''.'') m
      in case r of
           [] \<Rightarrow> map_option (\<lambda>ds. of_nat (nat_of_digits ds)) (digitpart ip)
         | _ # fp \<Rightarrow>
             if ip = []
             then map_option (\<lambda>ds. of_nat (nat_of_digits ds) / 10 ^ length ds) (digitpart fp)
             else (case digitpart ip of
                     None \<Rightarrow> None
                   | Some ids \<Rightarrow>
                       if fp = [] then Some (of_nat (nat_of_digits ids))
                       else map_option
                              (\<lambda>fds. of_nat (nat_of_digits ids)
                                       + of_nat (nat_of_digits fds) / 10 ^ length fds)
                              (digitpart fp)))"

definition floatnumber :: "string \<Rightarrow> rat option" where
  "floatnumber s =
     (let m = takeWhile (\<lambda>c. c \<noteq> CHR ''e'' \<and> c \<noteq> CHR ''E'') s;
          r = dropWhile (\<lambda>c. c \<noteq> CHR ''e'' \<and> c \<noteq> CHR ''E'') s
      in case number m of
           None \<Rightarrow> None
         | Some q \<Rightarrow>
             (case r of
                [] \<Rightarrow> Some q
              | _ # ex \<Rightarrow> map_option (\<lambda>k. q * pow10 k) (signed_digits ex)))"

definition py_float :: "string \<Rightarrow> pyfloat option" where
  "py_float s =
     (let t = c_strip s;
          neg = (take 1 t = ''-'');
          body = (if take 1 t = ''-'' \<or> take 1 t = ''+'' then drop 1 t else t)
      in if lower body = ''inf'' \<or> lower body = ''infinity'' then Some (Infinity neg)
         else if lower body = ''nan'' then Some NaN
         else map_option (\<lambda>q. Finite (if neg then - q else q)) (floatnumber body))"

text \<open>\<^verbatim>\<open>x.replace("D", "E")\<close>: every \<open>D\<close> becomes an \<open>E\<close>.\<close>

definition replace_D_E :: "string \<Rightarrow> string" where
  "replace_D_E x = map (\<lambda>c. if c = CHR ''D'' then CHR ''E'' else c) x"

section \<open>Values, records and the field table\<close>

text \<open>A \<^verbatim>\<open>datetime\<close> in UTC: year, month, day, hour, minute, second, microsecond.\<close>

datatype datetime = DateTime nat nat nat nat nat nat nat

datatype pyval = PyNone | PyInt int | PyFloat pyfloat | PyTime datetime | PyStr string

text \<open>
  A satellite record is a Python dictionary from column names to values. An association
  list updated with \<^const>\<open>AList.update\<close> behaves like it: a new key goes to the
  end, an old key keeps its place, and the empty dictionary is the empty list.
\<close>

type_synonym sat_record = "(string \<times> pyval) list"

datatype converter = ToInt | ToFloat

fun convert :: "converter \<Rightarrow> string \<Rightarrow> pyval option" where
  "convert ToInt x = map_option PyInt (py_int x)"
| "convert ToFloat x = map_option PyFloat (py_float (replace_D_E x))"

definition field_map :: "(string \<times> string \<times> converter) list" where
  "field_map =
     [(''ID:'', ''PRN'', ToInt),
      (''Health:'', ''Health'', ToInt),
      (''Eccentricity:'', ''Eccentricity'', ToFloat),
      (''Time of Applicability(s):'', ''TimeOfApplicability'', ToFloat),
      (''Orbital Inclination(rad):'', ''OrbitalInclination'', ToFloat),
      (''Rate of Right Ascen(r/s):'', ''RateOfRightAscen'', ToFloat),
      (''SQRT(A)  (m 1/2):'', ''SQRTA'', ToFloat),
      (''Right Ascen at Week(rad):'', ''RightAscenAtWeek'', ToFloat),
      (''Argument of Perigee(rad):'', ''ArgumentOfPerigee'', ToFloat),
      (''Mean Anom(rad):'', ''MeanAnom'', ToFloat),
      (''Af0(s):'', ''Af0'', ToFloat),
      (''Af1(s/s):'', ''Af1'', ToFloat)]"

section \<open>The line scan of \<^verbatim>\<open>parse_yuma_almanac\<close>\<close>

text \<open>
  The three variables of the loop. The variable \<^verbatim>\<open>record\<close> of the source is the
  field \<open>current\<close> here.
\<close>

record scan_state =
  records :: "sat_record list"
  current :: sat_record
  week :: "int option"

definition init_state :: scan_state where
  "init_state = \<lparr>records = [], current = [], week = None\<rparr>"

text \<open>
  \<^verbatim>\<open>re.search(r"Week\s+(\d+)", line)\<close>. White space and digits are disjoint, so
  a match at a position is the word, the longest run of white space after it (at least
  one character) and the longest run of digits after that (at least one); the search
  takes the leftmost position that matches.
\<close>

definition week_match_at :: "string \<Rightarrow> nat option" where
  "week_match_at s =
     (let r = drop 4 s; ds = takeWhile is_digit (dropWhile is_space r)
      in if startswith s ''Week'' \<and> takeWhile is_space r \<noteq> [] \<and> ds \<noteq> []
         then Some (nat_of_digits ds) else None)"

fun re_search_week :: "string \<Rightarrow> nat option" where
  "re_search_week [] = None"
| "re_search_week (c # cs) =
     (case week_match_at (c # cs) of Some n \<Rightarrow> Some n | None \<Rightarrow> re_search_week cs)"

definition week_header :: "scan_state \<Rightarrow> string \<Rightarrow> scan_state" where
  "week_header st line =
     (case re_search_week line of
        Some n \<Rightarrow> st\<lparr>week := Some (int n)\<rparr>
      | None \<Rightarrow> st)"

definition week_value :: "int option \<Rightarrow> pyval" where
  "week_value w = (case w of None \<Rightarrow> PyNone | Some n \<Rightarrow> PyInt n)"

definition parse_prn :: "string \<Rightarrow> pyval" where
  "parse_prn line =
     (case after_colon line of
        None \<Rightarrow> PyNone
      | Some rest \<Rightarrow> (case py_int (strip rest) of None \<Rightarrow> PyNone | Some n \<Rightarrow> PyInt n))"

definition start_record :: "datetime \<Rightarrow> scan_state \<Rightarrow> string \<Rightarrow> scan_state" where
  "start_record almanac_date st line =
     st\<lparr>records := (if current st \<noteq> [] then records st @ [current st] else records st),
        current := AList.update ''PRN'' (parse_prn line)
                     [(''Week'', week_value (week st)), (''Time'', PyTime almanac_date)]\<rparr>"

fun match_field :: "(string \<times> string \<times> converter) list \<Rightarrow> string \<Rightarrow> (string \<times> converter) option" where
  "match_field [] line = None"
| "match_field ((field, key, conv) # fm) line =
     (if startswith line field \<and> field \<noteq> ''ID:'' then Some (key, conv)
      else match_field fm line)"

definition field_value :: "converter \<Rightarrow> string \<Rightarrow> pyval" where
  "field_value conv line =
     (case after_colon line of
        None \<Rightarrow> PyNone
      | Some rest \<Rightarrow> (case convert conv (strip rest) of None \<Rightarrow> PyNone | Some v \<Rightarrow> v))"

definition set_field :: "scan_state \<Rightarrow> string \<Rightarrow> scan_state" where
  "set_field st line =
     (case match_field field_map line of
        None \<Rightarrow> st
      | Some (key, conv) \<Rightarrow> st\<lparr>current := AList.update key (field_value conv line) (current st)\<rparr>)"

definition scan_line :: "datetime \<Rightarrow> scan_state \<Rightarrow> string \<Rightarrow> scan_state" where
  "scan_line almanac_date st raw =
     (let line = strip raw
      in if line = [] then st
         else if startswith line ''******** Week'' then week_header st line
         else if startswith line ''ID:'' then start_record almanac_date st line
         else set_field st line)"

definition scan :: "datetime \<Rightarrow> scan_state \<Rightarrow> string list \<Rightarrow> scan_state" where
  "scan almanac_date st ls = foldl (scan_line almanac_date) st ls"

text \<open>After the loop: the record in progress is appended when it is not empty.\<close>

definition close_record :: "scan_state \<Rightarrow> sat_record list" where
  "close_record st = (if current st \<noteq> [] then records st @ [current st] else records st)"

section \<open>The table\<close>

text \<open>
  \<^verbatim>\<open>pd.DataFrame(records)\<close>: one row per dictionary, the columns are the keys in
  the order they first appear, and a key a row lacks is a missing cell. The cell values
  are kept as the dictionaries hold them.
\<close>

record dataframe =
  rows :: "sat_record list"
  columns :: "string list"
  index_name :: "string option"

definition DataFrame :: "sat_record list \<Rightarrow> dataframe" where
  "DataFrame rs =
     \<lparr>rows = rs, columns = rev (remdups (rev (concat (map (map fst) rs)))), index_name = None\<rparr>"

definition cell :: "sat_record \<Rightarrow> string \<Rightarrow> pyval" where
  "cell r k = (case map_of r k of None \<Rightarrow> PyNone | Some v \<Rightarrow> v)"

definition isnull :: "pyval \<Rightarrow> bool" where
  "isnull v = (v = PyNone \<or> v = PyFloat NaN)"

definition isnull_all :: "dataframe \<Rightarrow> string \<Rightarrow> bool" where
  "isnull_all df f = list_all (\<lambda>r. isnull (cell r f)) (rows df)"

definition required_fields :: "string list" where
  "required_fields = [''PRN'', ''Week'', ''Time'']"

text \<open>
  The failures of the two functions. The three \<^verbatim>\<open>ValueError\<close>s of the parser are
  told apart by their message: \<open>EmptyInput\<close> is "Input file is empty",
  \<open>NoRecordsProduced\<close> is "No valid records found in the YUMA file." and
  \<open>MissingRequiredFields\<close> is "Missing required fields: ...". \<open>KeyError\<close> is what
  indexing a table by a column it does not have raises, and \<open>MissingTimeColumn\<close> is the
  reader's "Parsed data missing 'Time' column.".
\<close>

datatype error =
    FileNotFoundError
  | IOError
  | EmptyInput
  | NoRecordsProduced
  | MissingRequiredFields "string list"
  | KeyError string
  | MissingTimeColumn

text \<open>
  Lines 101 to 117: the table of the records, the check of the required columns under
  \<^verbatim>\<open>strict\<close>, and \<^verbatim>\<open>df['Time'] = pd.to_datetime(df['Time'])\<close>, which changes
  no value of the model but needs the column to be there. The epoch is taken to lie in the
  range that the library's timestamps cover.
\<close>

definition build_table :: "bool \<Rightarrow> sat_record list \<Rightarrow> error + dataframe" where
  "build_table strict recs =
     (if recs = [] then Inl NoRecordsProduced
      else let df = DataFrame recs;
               missing = filter (\<lambda>f. if f \<in> set (columns df) then isnull_all df f else True)
                           required_fields
           in if strict \<and> missing \<noteq> [] then Inl (MissingRequiredFields missing)
              else if ''Time'' \<in> set (columns df) then Inr df
              else Inl (KeyError ''Time''))"

section \<open>Files and \<^verbatim>\<open>parse_yuma_almanac\<close>\<close>

text \<open>
  What the functions see of a path: its final component, and the regular file it names if
  there is one. Of the file they see the lines \<^verbatim>\<open>readlines\<close> returns (\<open>None\<close>
  when reading raises) and the modification time, held as the UTC
  \<^verbatim>\<open>datetime\<close> that \<^verbatim>\<open>fromtimestamp(st_mtime, tz=utc)\<close> makes of it.
  What the functions print under \<^verbatim>\<open>verbose\<close> changes no value and is left out, and
  with it the flag.
\<close>

record source_file =
  file_lines :: "string list option"
  file_mtime :: datetime

record path =
  path_name :: string
  path_file :: "source_file option"

definition parse_lines :: "string list \<Rightarrow> datetime \<Rightarrow> bool \<Rightarrow> error + dataframe" where
  "parse_lines ls almanac_date strict =
     build_table strict (close_record (scan almanac_date init_state ls))"

definition parse_yuma_almanac :: "path \<Rightarrow> datetime option \<Rightarrow> bool \<Rightarrow> error + dataframe" where
  "parse_yuma_almanac filepath almanac_date strict =
     (case path_file filepath of
        None \<Rightarrow> Inl FileNotFoundError
      | Some f \<Rightarrow>
          (case file_lines f of
             None \<Rightarrow> Inl IOError
           | Some ls \<Rightarrow>
               if ls = [] then Inl EmptyInput
               else parse_lines ls
                      (case almanac_date of None \<Rightarrow> file_mtime f | Some d \<Rightarrow> d) strict))"

section \<open>\<^verbatim>\<open>yumaread\<close>\<close>

text \<open>
  \<^verbatim>\<open>re.search(r"(\d{4})-(\d{2})-(\d{2})", filename.name)\<close>: the leftmost place
  where four digits, a hyphen, two digits, a hyphen and two digits stand.
\<close>

definition date_match_at :: "string \<Rightarrow> (nat \<times> nat \<times> nat) option" where
  "date_match_at s =
     (let y = take 4 s; m = take 2 (drop 5 s); d = take 2 (drop 8 s)
      in if length y = 4 \<and> list_all is_digit y \<and> take 1 (drop 4 s) = ''-''
            \<and> length m = 2 \<and> list_all is_digit m \<and> take 1 (drop 7 s) = ''-''
            \<and> length d = 2 \<and> list_all is_digit d
         then Some (nat_of_digits y, nat_of_digits m, nat_of_digits d) else None)"

fun re_search_date :: "string \<Rightarrow> (nat \<times> nat \<times> nat) option" where
  "re_search_date [] = None"
| "re_search_date (c # cs) =
     (case date_match_at (c # cs) of Some r \<Rightarrow> Some r | None \<Rightarrow> re_search_date cs)"

text \<open>
  \<^verbatim>\<open>datetime.datetime(y, m, d, tzinfo=utc)\<close>: midnight of a day of the proleptic
  Gregorian calendar, years 1 to 9999; \<open>None\<close> is the \<^verbatim>\<open>ValueError\<close>.
\<close>

definition is_leap :: "nat \<Rightarrow> bool" where
  "is_leap y = ((y mod 4 = 0 \<and> y mod 100 \<noteq> 0) \<or> y mod 400 = 0)"

definition days_in_month :: "nat \<Rightarrow> nat \<Rightarrow> nat" where
  "days_in_month y m =
     (if m = 2 then (if is_leap y then 29 else 28)
      else if m = 4 \<or> m = 6 \<or> m = 9 \<or> m = 11 then 30 else 31)"

definition make_datetime :: "nat \<Rightarrow> nat \<Rightarrow> nat \<Rightarrow> datetime option" where
  "make_datetime y m d =
     (if 1 \<le> y \<and> y \<le> 9999 \<and> 1 \<le> m \<and> m \<le> 12 \<and> 1 \<le> d \<and> d \<le> days_in_month y m
      then Some (DateTime y m d 0 0 0 0) else None)"

definition filename_date :: "string \<Rightarrow> datetime option" where
  "filename_date nm =
     (case re_search_date nm of None \<Rightarrow> None | Some (y, m, d) \<Rightarrow> make_datetime y m d)"

text \<open>
  \<^verbatim>\<open>df['Time'].dt.strftime(time_format)\<close>. The formatter is the platform's and is a
  parameter \<open>strftime\<close> of the model: \<open>None\<close> is a formatting that raises. A missing
  cell stays missing. When any cell raises, the assignment does not happen.
\<close>

definition format_row :: "(string \<Rightarrow> datetime \<Rightarrow> string option) \<Rightarrow> string \<Rightarrow> sat_record \<Rightarrow> sat_record option" where
  "format_row strftime fmt r =
     (case map_of r ''Time'' of
        Some (PyTime t) \<Rightarrow> map_option (\<lambda>s. AList.update ''Time'' (PyStr s) r) (strftime fmt t)
      | _ \<Rightarrow> Some r)"

definition format_time :: "(string \<Rightarrow> datetime \<Rightarrow> string option) \<Rightarrow> string \<Rightarrow> dataframe \<Rightarrow> dataframe" where
  "format_time strftime fmt df =
     (case those (map (format_row strftime fmt) (rows df)) of
        None \<Rightarrow> df
      | Some rs \<Rightarrow> df\<lparr>rows := rs\<rparr>)"

definition set_index :: "string \<Rightarrow> dataframe \<Rightarrow> dataframe" where
  "set_index k df = df\<lparr>columns := removeAll k (columns df), index_name := Some k\<rparr>"

text \<open>
  The body of the \<^verbatim>\<open>try\<close> block, with \<^verbatim>\<open>display\<close> off (its default; the
  branch only prints). \<^verbatim>\<open>if time_format:\<close> holds for a string that is not empty.
\<close>

definition yumaread_body ::
  "(string \<Rightarrow> datetime \<Rightarrow> string option) \<Rightarrow> path \<Rightarrow> string option \<Rightarrow> bool \<Rightarrow> error + dataframe" where
  "yumaread_body strftime filename time_format strict =
     (case path_file filename of
        None \<Rightarrow> Inl FileNotFoundError
      | Some f \<Rightarrow>
          (case parse_yuma_almanac filename (filename_date (path_name filename)) strict of
             Inl e \<Rightarrow> Inl e
           | Inr df \<Rightarrow>
               if ''Time'' \<in> set (columns df)
               then Inr (set_index ''Time''
                      (case time_format of
                         None \<Rightarrow> df
                       | Some fmt \<Rightarrow> if fmt = [] then df else format_time strftime fmt df))
               else Inl MissingTimeColumn))"

text \<open>\<^verbatim>\<open>except Exception\<close>: every failure of the body becomes the result \<open>None\<close>.\<close>

definition yumaread ::
  "(string \<Rightarrow> datetime \<Rightarrow> string option) \<Rightarrow> path \<Rightarrow> string option \<Rightarrow> bool \<Rightarrow> dataframe option" where
  "yumaread strftime filename time_format strict =
     (case yumaread_body strftime filename time_format strict of
        Inl e \<Rightarrow> None
      | Inr df \<Rightarrow> Some df)"

section \<open>Kinds of lines and of records\<close>

text \<open>
  The branch a line takes in the loop, read off the stripped line as the loop reads it. A
  field line is one that reaches the field table and matches a label; \<open>field_key\<close> is the
  key it writes and \<open>field_cell\<close> the value, and \<open>value_text\<close> is the text after the
  first colon, stripped. An input is well formed when no field line stands before the first
  \<open>ID:\<close> line. A record that an \<open>ID:\<close> line started is one that has the key
  \<open>PRN\<close>: no other line writes that key. Such a record is seeded: it holds the epoch
  under \<open>Time\<close> and an integer or null under \<open>Week\<close>; any other record holds neither
  key.
\<close>

definition is_header :: "string \<Rightarrow> bool" where
  "is_header raw = startswith (strip raw) ''******** Week''"

definition is_id_line :: "string \<Rightarrow> bool" where
  "is_id_line raw = startswith (strip raw) ''ID:''"

definition is_field_line :: "string \<Rightarrow> bool" where
  "is_field_line raw =
     (\<not> is_header raw \<and> \<not> is_id_line raw \<and> match_field field_map (strip raw) \<noteq> None)"

definition well_formed :: "string list \<Rightarrow> bool" where
  "well_formed ls = list_all (\<lambda>l. \<not> is_field_line l) (takeWhile (\<lambda>l. \<not> is_id_line l) ls)"

definition started_by_id :: "sat_record \<Rightarrow> bool" where
  "started_by_id r = (map_of r ''PRN'' \<noteq> None)"

definition is_week_cell :: "pyval option \<Rightarrow> bool" where
  "is_week_cell c = (case c of Some PyNone \<Rightarrow> True | Some (PyInt n) \<Rightarrow> True | _ \<Rightarrow> False)"

definition seeded :: "datetime \<Rightarrow> sat_record \<Rightarrow> bool" where
  "seeded d r =
     (r \<noteq> [] \<and>
      (if started_by_id r
       then map_of r ''Time'' = Some (PyTime d) \<and> is_week_cell (map_of r ''Week'')
       else map_of r ''Time'' = None \<and> map_of r ''Week'' = None))"

definition value_text :: "string \<Rightarrow> string" where
  "value_text raw = (case after_colon (strip raw) of None \<Rightarrow> [] | Some rest \<Rightarrow> strip rest)"

definition field_key :: "string \<Rightarrow> string option" where
  "field_key raw =
     (if is_field_line raw then map_option fst (match_field field_map (strip raw)) else None)"

definition field_cell :: "string \<Rightarrow> pyval" where
  "field_cell raw =
     (case match_field field_map (strip raw) of
        None \<Rightarrow> PyNone
      | Some (key, conv) \<Rightarrow> field_value conv (strip raw))"

section \<open>A formatter to run the examples with\<close>

text \<open>
  One formatter to put in the place of the platform's: it knows the directives
  \<^verbatim>\<open>%Y %m %d %H %M %S %%\<close> and raises on any other.
\<close>

definition digit_char :: "nat \<Rightarrow> char" where
  "digit_char k = ''0123456789'' ! (k mod 10)"

definition two_digits :: "nat \<Rightarrow> string" where
  "two_digits n = [digit_char (n div 10), digit_char n]"

definition four_digits :: "nat \<Rightarrow> string" where
  "four_digits n = [digit_char (n div 1000), digit_char (n div 100), digit_char (n div 10), digit_char n]"

fun strftime_directive :: "char \<Rightarrow> datetime \<Rightarrow> string option" where
  "strftime_directive e (DateTime y mo d h mi s us) =
     (if e = CHR ''Y'' then Some (four_digits y)
      else if e = CHR ''m'' then Some (two_digits mo)
      else if e = CHR ''d'' then Some (two_digits d)
      else if e = CHR ''H'' then Some (two_digits h)
      else if e = CHR ''M'' then Some (two_digits mi)
      else if e = CHR ''S'' then Some (two_digits s)
      else if e = CHR ''%'' then Some ''%''
      else None)"

fun strftime_basic :: "string \<Rightarrow> datetime \<Rightarrow> string option" where
  "strftime_basic [] t = Some []"
| "strftime_basic [c] t = (if c = CHR ''%'' then None else Some [c])"
| "strftime_basic (c # e # cs) t =
     (if c = CHR ''%''
      then (case strftime_directive e t of
              None \<Rightarrow> None
            | Some out \<Rightarrow> map_option (\<lambda>rest. out @ rest) (strftime_basic cs t))
      else map_option (Cons c) (strftime_basic (e # cs) t))"

section \<open>Sample inputs\<close>

text \<open>
  An almanac of two satellites as the archive publishes it, the same content in a file
  touched a day later and under a dated name, and inputs that are damaged in one way each.
\<close>

definition sample_lines :: "string list" where
  "sample_lines =
     [''******** Week 175 almanac for PRN-01 ********\<newline>'',
      ''ID:                         01\<newline>'',
      ''Health:                     000\<newline>'',
      ''Eccentricity:               0.1234567D-01\<newline>'',
      ''\<newline>'',
      ''******** Week 175 almanac for PRN-02 ********\<newline>'',
      ''ID:                         02\<newline>'',
      ''Health:                     063\<newline>'']"

definition sample_file :: source_file where
  "sample_file = \<lparr>file_lines = Some sample_lines, file_mtime = DateTime 2024 6 1 8 30 0 0\<rparr>"

definition sample_path :: path where
  "sample_path = \<lparr>path_name = ''almanac.alm'', path_file = Some sample_file\<rparr>"

definition orphan_lines :: "string list" where
  "orphan_lines = [''Health:                     000\<newline>'']"

definition orphan_path :: path where
  "orphan_path =
     \<lparr>path_name = ''current.alm'',
      path_file = Some \<lparr>file_lines = Some orphan_lines, file_mtime = DateTime 2024 6 1 8 30 0 0\<rparr>\<rparr>"

definition sample_file_touched :: source_file where
  "sample_file_touched = \<lparr>file_lines = Some sample_lines, file_mtime = DateTime 2024 6 2 9 0 0 0\<rparr>"

definition sample_path_touched :: path where
  "sample_path_touched = \<lparr>path_name = ''almanac.alm'', path_file = Some sample_file_touched\<rparr>"

definition dated_name :: string where
  "dated_name = ''yumaAlmanac_2024-03-05.alm''"

definition dated_path :: path where
  "dated_path = \<lparr>path_name = dated_name, path_file = Some sample_file\<rparr>"



definition sample_table :: dataframe where
  "sample_table =
     \<lparr>rows =
        [[(''Week'', PyInt 175), (''Time'', PyTime (DateTime 2024 6 1 8 30 0 0)),
          (''PRN'', PyInt 1), (''Health'', PyInt 0),
          (''Eccentricity'', PyFloat (Finite (1234567 / 100000000)))],
         [(''Week'', PyInt 175), (''Time'', PyTime (DateTime 2024 6 1 8 30 0 0)),
          (''PRN'', PyInt 2), (''Health'', PyInt 63)]],
      columns = [''Week'', ''Time'', ''PRN'', ''Health'', ''Eccentricity''],
      index_name = None\<rparr>"

definition missing_path :: path where
  "missing_path = \<lparr>path_name = ''yumaAlmanac_2024-03-05.alm'', path_file = None\<rparr>"

definition dated_table :: dataframe where
  "dated_table =
     \<lparr>rows =
        [[(''Week'', PyInt 175), (''Time'', PyTime (DateTime 2024 3 5 0 0 0 0)),
          (''PRN'', PyInt 1), (''Health'', PyInt 0),
          (''Eccentricity'', PyFloat (Finite (1234567 / 100000000)))],
         [(''Week'', PyInt 175), (''Time'', PyTime (DateTime 2024 3 5 0 0 0 0)),
          (''PRN'', PyInt 2), (''Health'', PyInt 63)]],
      columns = [''Week'', ''Time'', ''PRN'', ''Health'', ''Eccentricity''],
      index_name = None\<rparr>"

definition bad_id_line :: string where
  "bad_id_line = ''ID:                         G01\<newline>''"

definition bad_health_line :: string where
  "bad_health_line = ''Health:                     n/a\<newline>''"

definition open_state :: scan_state where
  "open_state =
     \<lparr>records = [],
      current = [(''Week'', PyInt 175), (''Time'', PyTime (DateTime 2024 3 5 0 0 0 0)),
                 (''PRN'', PyInt 1), (''Health'', PyInt 0)],
      week = Some 175\<rparr>"

definition repeated_health_block :: "string list" where
  "repeated_health_block =
     [''Health:                     000\<newline>'',
      ''Eccentricity:               0.1234567D-01\<newline>'',
      ''Health:                     n/a\<newline>'',
      ''\<newline>'']"






definition null_prn_lines :: "string list" where
  "null_prn_lines =
     [''******** Week 175 almanac for PRN-01 ********\<newline>'',
      ''ID:                         G01\<newline>'',
      ''Health:                     000\<newline>'']"

definition null_prn_path :: path where
  "null_prn_path =
     \<lparr>path_name = ''current.alm'',
      path_file = Some \<lparr>file_lines = Some null_prn_lines, file_mtime = DateTime 2024 6 1 8 30 0 0\<rparr>\<rparr>"

definition empty_path :: path where
  "empty_path =
     \<lparr>path_name = ''current.alm'',
      path_file = Some \<lparr>file_lines = Some [], file_mtime = DateTime 2024 6 1 8 30 0 0\<rparr>\<rparr>"

section \<open>Facts about the scan and the table\<close>

lemma startswith_iff: "startswith s p \<longleftrightarrow> (\<exists>t. s = p @ t)"
  unfolding startswith_def by (metis append_eq_conv_conj append_take_drop_id)


lemma scan_line_blank: "strip raw = [] \<Longrightarrow> scan_line d st raw = st"
  by (simp add: scan_line_def)

lemma header_not_id: "is_header raw \<Longrightarrow> \<not> is_id_line raw"
  by (auto simp: is_header_def is_id_line_def startswith_iff)

lemma scan_line_header: "is_header raw \<Longrightarrow> scan_line d st raw = week_header st (strip raw)"
  by (auto simp: scan_line_def is_header_def startswith_iff Let_def)

lemma scan_line_id: "is_id_line raw \<Longrightarrow> scan_line d st raw = start_record d st (strip raw)"
  using header_not_id[of raw]
  by (auto simp: scan_line_def is_id_line_def is_header_def startswith_iff Let_def)

lemma match_field_Nil: "match_field field_map [] = None"
  by (simp add: field_map_def startswith_def)

lemma scan_line_other:
  "\<not> is_header raw \<Longrightarrow> \<not> is_id_line raw \<Longrightarrow> scan_line d st raw = set_field st (strip raw)"
  by (simp add: scan_line_def is_id_line_def is_header_def set_field_def match_field_Nil Let_def)

lemma match_field_mem:
  "match_field fm line = Some (key, conv) \<Longrightarrow>
     \<exists>field. (field, key, conv) \<in> set fm \<and> field \<noteq> ''ID:'' \<and> startswith line field"
  by (induction fm line rule: match_field.induct) (auto split: if_splits)

lemma field_map_keys:
  "(field, key, conv) \<in> set field_map \<Longrightarrow> field \<noteq> ''ID:'' \<Longrightarrow>
     key \<noteq> ''PRN'' \<and> key \<noteq> ''Week'' \<and> key \<noteq> ''Time''"
  by (auto simp: field_map_def)

lemma match_field_keys:
  "match_field field_map line = Some (key, conv) \<Longrightarrow>
     key \<noteq> ''PRN'' \<and> key \<noteq> ''Week'' \<and> key \<noteq> ''Time''"
  using match_field_mem field_map_keys by blast

lemma scan_cons: "scan d st (l # ls) = scan d (scan_line d st l) ls"
  by (simp add: scan_def)

lemma scan_append: "scan d st (xs @ ys) = scan d (scan d st xs) ys"
  by (simp add: scan_def)

lemma scan_nil: "scan d st [] = st"
  by (simp add: scan_def)

lemma week_header_keeps:
  "records (week_header st l) = records st" "current (week_header st l) = current st"
  by (simp_all add: week_header_def split: option.splits)

lemma set_field_cases:
  "(match_field field_map l = None \<and> set_field st l = st) \<or>
   (\<exists>key conv. match_field field_map l = Some (key, conv) \<and>
      key \<noteq> ''PRN'' \<and> key \<noteq> ''Week'' \<and> key \<noteq> ''Time'' \<and>
      set_field st l = st\<lparr>current := AList.update key (field_value conv l) (current st)\<rparr>)"
proof (cases "match_field field_map l")
  case None
  then show ?thesis by (simp add: set_field_def)
next
  case (Some kc)
  obtain key conv where kc: "kc = (key, conv)" by (cases kc)
  with Some match_field_keys[of l key conv] show ?thesis
    by (simp add: set_field_def)
qed

text \<open>What one line does to the state, by the kind of the line.\<close>

lemma scan_line_cases:
  "(\<not> is_id_line l \<and> \<not> is_field_line l \<and>
      records (scan_line d st l) = records st \<and> current (scan_line d st l) = current st) \<or>
   (is_id_line l \<and> scan_line d st l = start_record d st (strip l)) \<or>
   (is_field_line l \<and> \<not> is_id_line l \<and>
      (\<exists>key conv. match_field field_map (strip l) = Some (key, conv) \<and>
         key \<noteq> ''PRN'' \<and> key \<noteq> ''Week'' \<and> key \<noteq> ''Time'' \<and>
         scan_line d st l =
           st\<lparr>current := AList.update key (field_value conv (strip l)) (current st)\<rparr>))"
proof (cases "is_header l")
  case True
  then show ?thesis
    using header_not_id[of l] by (simp add: scan_line_header week_header_keeps is_field_line_def)
next
  case nh: False
  show ?thesis
  proof (cases "is_id_line l")
    case True
    then show ?thesis by (simp add: scan_line_id)
  next
    case False
    with nh have eq: "scan_line d st l = set_field st (strip l)" by (rule scan_line_other)
    from set_field_cases[of "strip l" st] show ?thesis
      using nh False by (auto simp: eq is_field_line_def)
  qed
qed

lemma update_nonempty: "AList.update k v al \<noteq> []"
  by (cases al) auto

lemma close_record_start:
  "close_record (start_record d st l) =
     close_record st @ [AList.update ''PRN'' (parse_prn l)
                         [(''Week'', week_value (week st)), (''Time'', PyTime d)]]"
  by (simp add: close_record_def start_record_def)

lemma close_record_field:
  "close_record (st\<lparr>current := AList.update k v (current st)\<rparr>) =
     records st @ [AList.update k v (current st)]"
  by (simp add: close_record_def update_nonempty)


lemma well_formed_Cons:
  "well_formed (l # ls) \<longleftrightarrow> is_id_line l \<or> (\<not> is_field_line l \<and> well_formed ls)"
  by (simp add: well_formed_def)

lemma cell_update: "cell (AList.update k v al) k' = (if k' = k then v else cell al k')"
  by (simp add: cell_def update_conv')

text \<open>The PRN column of the records, in the order of the \<open>ID:\<close> lines.\<close>

lemma close_record_step_prn:
  assumes "current st \<noteq> [] \<or> \<not> is_field_line l"
  shows "map (\<lambda>r. cell r ''PRN'') (close_record (scan_line d st l)) =
           map (\<lambda>r. cell r ''PRN'') (close_record st)
           @ (if is_id_line l then [parse_prn (strip l)] else [])
         \<and> (current st \<noteq> [] \<or> is_id_line l \<longrightarrow> current (scan_line d st l) \<noteq> [])"
  using scan_line_cases[of l d st]
proof (elim disjE conjE exE)
  assume "\<not> is_id_line l" "records (scan_line d st l) = records st"
    "current (scan_line d st l) = current st"
  then show ?thesis by (simp add: close_record_def)
next
  assume "is_id_line l" "scan_line d st l = start_record d st (strip l)"
  then show ?thesis
    by (simp add: close_record_start cell_def) (simp add: start_record_def update_nonempty)
next
  fix key conv
  assume f: "is_field_line l" "\<not> is_id_line l" "key \<noteq> ''PRN''"
    and eq: "scan_line d st l =
             st\<lparr>current := AList.update key (field_value conv (strip l)) (current st)\<rparr>"
  from f assms have ne: "current st \<noteq> []" by simp
  show ?thesis
    using f ne by (simp add: eq close_record_field cell_update update_nonempty)
       (simp add: close_record_def)
qed

lemma scan_prn:
  "current st \<noteq> [] \<or> well_formed ls \<Longrightarrow>
     map (\<lambda>r. cell r ''PRN'') (close_record (scan d st ls)) =
       map (\<lambda>r. cell r ''PRN'') (close_record st)
       @ map (\<lambda>l. parse_prn (strip l)) (filter is_id_line ls)"
proof (induction ls arbitrary: st)
  case Nil
  then show ?case by (simp add: scan_nil)
next
  case (Cons l ls)
  have pre: "current st \<noteq> [] \<or> \<not> is_field_line l"
    using Cons.prems by (auto simp: well_formed_Cons dest: conjunct1 simp: is_field_line_def)
  note step = close_record_step_prn[OF pre, of d]
  have next_ok: "current (scan_line d st l) \<noteq> [] \<or> well_formed ls"
    using Cons.prems step by (auto simp: well_formed_Cons)
  show ?case
    using Cons.IH[OF next_ok] step by (simp add: scan_cons)
qed

lemmas text_defs = strip_def is_space_def c_strip_def is_c_space_def is_digit_def startswith_def
  digit_val_def nat_of_digits_def
  digitpart_def signed_digits_def py_int_def lower_def pow10_def number_def floatnumber_def
  py_float_def replace_D_E_def

lemmas scan_defs = field_map_def init_state_def week_match_at_def week_header_def week_value_def
  parse_prn_def start_record_def field_value_def set_field_def scan_line_def scan_def
  close_record_def

lemmas table_defs = DataFrame_def cell_def isnull_def isnull_all_def required_fields_def
  build_table_def parse_lines_def parse_yuma_almanac_def

lemmas line_defs = is_header_def is_id_line_def is_field_line_def well_formed_def

lemma build_table_Inr:
  "build_table strict recs = Inr df \<Longrightarrow> df = DataFrame recs \<and> recs \<noteq> []"
  by (auto simp: build_table_def Let_def split: if_splits)

lemma rows_DataFrame: "rows (DataFrame rs) = rs"
  by (simp add: DataFrame_def)

lemma parse_yuma_almanac_Inr:
  assumes "parse_yuma_almanac p ad strict = Inr df"
    and "path_file p = Some f" and "file_lines f = Some ls"
  shows "rows df =
           close_record (scan (case ad of None \<Rightarrow> file_mtime f | Some d \<Rightarrow> d) init_state ls)"
proof -
  from assms have "build_table strict (close_record
      (scan (case ad of None \<Rightarrow> file_mtime f | Some d \<Rightarrow> d) init_state ls)) = Inr df"
    by (simp add: parse_yuma_almanac_def parse_lines_def split: if_splits)
  from build_table_Inr[OF this] show ?thesis by (simp add: rows_DataFrame)
qed

lemma sample_well_formed: "well_formed sample_lines"
  by (simp add: sample_lines_def line_defs text_defs field_map_def)

lemma sample_parse:
  "parse_yuma_almanac sample_path None True =
     Inr \<lparr>rows =
            [[(''Week'', PyInt 175), (''Time'', PyTime (DateTime 2024 6 1 8 30 0 0)),
              (''PRN'', PyInt 1), (''Health'', PyInt 0),
              (''Eccentricity'', PyFloat (Finite (1234567 / 100000000)))],
             [(''Week'', PyInt 175), (''Time'', PyTime (DateTime 2024 6 1 8 30 0 0)),
              (''PRN'', PyInt 2), (''Health'', PyInt 63)]],
          columns = [''Week'', ''Time'', ''PRN'', ''Health'', ''Eccentricity''],
          index_name = None\<rparr>"
  by (simp add: sample_path_def sample_file_def sample_lines_def text_defs scan_defs table_defs)

lemma columns_DataFrame: "set (columns (DataFrame rs)) = (\<Union>r\<in>set rs. fst ` set r)"
  by (auto simp: DataFrame_def)

lemma build_table_Inl:
  "build_table strict recs = Inl e \<longleftrightarrow>
     (recs = [] \<and> e = NoRecordsProduced) \<or>
     (recs \<noteq> [] \<and> strict \<and>
        filter (\<lambda>f. if f \<in> set (columns (DataFrame recs)) then isnull_all (DataFrame recs) f else True)
          required_fields \<noteq> [] \<and>
        e = MissingRequiredFields
              (filter (\<lambda>f. if f \<in> set (columns (DataFrame recs)) then isnull_all (DataFrame recs) f else True)
                 required_fields)) \<or>
     (recs \<noteq> [] \<and> \<not> strict \<and> ''Time'' \<notin> set (columns (DataFrame recs)) \<and> e = KeyError ''Time'')"
  by (auto simp: build_table_def Let_def required_fields_def)

lemma dated_name_date: "filename_date dated_name = Some (DateTime 2024 3 5 0 0 0 0)"
  by (simp add: dated_name_def filename_date_def date_match_at_def make_datetime_def
        days_in_month_def is_leap_def text_defs)

lemma is_week_cell_value: "is_week_cell (Some (week_value w))"
  by (simp add: is_week_cell_def week_value_def split: option.splits)

lemma seeded_new:
  "seeded d (AList.update ''PRN'' v [(''Week'', week_value w), (''Time'', PyTime d)])"
  by (simp add: seeded_def started_by_id_def is_week_cell_value)

lemma seeded_update:
  assumes "k \<noteq> ''PRN''" "k \<noteq> ''Week''" "k \<noteq> ''Time''"
    and "r = [] \<or> seeded d r"
  shows "seeded d (AList.update k v r)"
  using assms by (auto simp: seeded_def started_by_id_def update_conv' update_nonempty)

lemma close_record_set:
  "set (close_record st) = set (records st) \<union> (if current st = [] then {} else {current st})"
  by (simp add: close_record_def)

lemma seeded_step:
  assumes "\<forall>r\<in>set (close_record st). seeded d r"
  shows "\<forall>r\<in>set (close_record (scan_line d st l)). seeded d r"
  using scan_line_cases[of l d st]
proof (elim disjE conjE exE)
  assume "records (scan_line d st l) = records st" "current (scan_line d st l) = current st"
  then show ?thesis using assms by (simp add: close_record_def)
next
  assume "scan_line d st l = start_record d st (strip l)"
  then show ?thesis
    using assms seeded_new[of d "parse_prn (strip l)" "week st"] by (simp add: close_record_start)
next
  fix key conv
  assume k: "key \<noteq> ''PRN''" "key \<noteq> ''Week''" "key \<noteq> ''Time''"
    and eq: "scan_line d st l =
             st\<lparr>current := AList.update key (field_value conv (strip l)) (current st)\<rparr>"
  have "current st = [] \<or> seeded d (current st)"
    using assms by (auto simp: close_record_set)
  from seeded_update[OF k this] show ?thesis
    using assms by (auto simp: eq close_record_field close_record_set split: if_splits)
qed

lemma seeded_scan:
  "\<forall>r\<in>set (close_record st). seeded d r \<Longrightarrow> \<forall>r\<in>set (close_record (scan d st ls)). seeded d r"
proof (induction ls arbitrary: st)
  case Nil
  then show ?case by (simp add: scan_nil)
next
  case (Cons l ls)
  from Cons.IH[OF seeded_step[OF Cons.prems]] show ?case by (simp add: scan_cons)
qed

lemma seeded_rows:
  assumes "parse_yuma_almanac p ad strict = Inr df"
    and "path_file p = Some f" and "file_lines f = Some ls"
  shows "\<forall>r\<in>set (rows df). seeded (case ad of None \<Rightarrow> file_mtime f | Some d \<Rightarrow> d) r"
proof -
  have "\<forall>r\<in>set (close_record init_state). seeded (case ad of None \<Rightarrow> file_mtime f | Some d \<Rightarrow> d) r"
    by (simp add: close_record_def init_state_def)
  from seeded_scan[OF this] show ?thesis
    by (simp add: parse_yuma_almanac_Inr[OF assms])
qed

text \<open>On a well-formed input every record was started by an \<open>ID:\<close> line.\<close>

lemma started_step:
  assumes "\<forall>r\<in>set (close_record st). started_by_id r"
    and "current st \<noteq> [] \<or> \<not> is_field_line l"
  shows "(\<forall>r\<in>set (close_record (scan_line d st l)). started_by_id r)
         \<and> (current st \<noteq> [] \<or> is_id_line l \<longrightarrow> current (scan_line d st l) \<noteq> [])"
  using scan_line_cases[of l d st]
proof (elim disjE conjE exE)
  assume "\<not> is_id_line l" "records (scan_line d st l) = records st"
    "current (scan_line d st l) = current st"
  then show ?thesis using assms by (simp add: close_record_def)
next
  assume "is_id_line l" "scan_line d st l = start_record d st (strip l)"
  then show ?thesis using assms(1)
    by (simp add: close_record_start started_by_id_def update_conv')
       (simp add: start_record_def update_nonempty)
next
  fix key conv
  assume f: "is_field_line l" "\<not> is_id_line l" "key \<noteq> ''PRN''"
    and eq: "scan_line d st l =
             st\<lparr>current := AList.update key (field_value conv (strip l)) (current st)\<rparr>"
  from f assms have ne: "current st \<noteq> []" by simp
  show ?thesis
    using f ne assms(1)
    by (auto simp: eq close_record_field close_record_set started_by_id_def update_conv'
          update_nonempty)
qed

lemma started_scan:
  "\<forall>r\<in>set (close_record st). started_by_id r \<Longrightarrow> current st \<noteq> [] \<or> well_formed ls \<Longrightarrow>
     \<forall>r\<in>set (close_record (scan d st ls)). started_by_id r"
proof (induction ls arbitrary: st)
  case Nil
  then show ?case by (simp add: scan_nil)
next
  case (Cons l ls)
  have pre: "current st \<noteq> [] \<or> \<not> is_field_line l"
    using Cons.prems(2) by (auto simp: well_formed_Cons is_field_line_def)
  note step = started_step[OF Cons.prems(1) pre, of d]
  have next_ok: "current (scan_line d st l) \<noteq> [] \<or> well_formed ls"
    using Cons.prems(2) step by (auto simp: well_formed_Cons)
  from Cons.IH[OF conjunct1[OF step] next_ok] show ?case by (simp add: scan_cons)
qed


lemma records_step:
  "records (scan_line d st l) = records st \<or>
   (is_id_line l \<and> current st \<noteq> [] \<and> records (scan_line d st l) = records st @ [current st])"
  using scan_line_cases[of l d st]
  by (elim disjE conjE exE) (auto simp: start_record_def)

lemma sample_parse_table: "parse_yuma_almanac sample_path None True = Inr sample_table"
  by (simp add: sample_parse sample_table_def)

lemma strftime_ymd: "strftime_basic ''%Y-%m-%d'' (DateTime 2024 3 5 0 0 0 0) = Some ''2024-03-05''"
  by (simp add: two_digits_def four_digits_def digit_char_def)

lemma strftime_unknown: "strftime_basic ''%Q'' t = None"
  by (cases t) simp

lemma dated_parse:
  "parse_yuma_almanac dated_path (Some (DateTime 2024 3 5 0 0 0 0)) True = Inr dated_table"
  by (simp add: dated_path_def dated_table_def sample_file_def sample_lines_def
        text_defs scan_defs table_defs)

lemma dated_path_name: "path_name dated_path = dated_name"
  by (simp add: dated_path_def)

lemma those_map:
  "those (map f xs) =
     (if list_all (\<lambda>x. f x \<noteq> None) xs then Some (map (\<lambda>x. the (f x)) xs) else None)"
  by (induction xs) (auto split: option.splits)

lemma format_row_seeded:
  "seeded dt r \<Longrightarrow>
     format_row sf fmt r =
       (if started_by_id r
        then map_option (\<lambda>s. AList.update ''Time'' (PyStr s) r) (sf fmt dt)
        else Some r)"
  by (auto simp: seeded_def format_row_def)

lemma format_time_started:
  assumes sd: "\<forall>r\<in>set (rows df). seeded dt r"
    and mem: "r' \<in> set (rows (format_time sf fmt df))"
    and st: "started_by_id r'"
  shows "map_of r' ''Time'' = Some (case sf fmt dt of None \<Rightarrow> PyTime dt | Some s \<Rightarrow> PyStr s)"
proof (cases "sf fmt dt")
  case None
  have "rows (format_time sf fmt df) = rows df"
  proof (cases "list_all (\<lambda>x. format_row sf fmt x \<noteq> None) (rows df)")
    case True
    have "\<not> started_by_id r" if "r \<in> set (rows df)" for r
    proof
      assume "started_by_id r"
      moreover from that sd have "seeded dt r" by simp
      ultimately have "format_row sf fmt r = None"
        using None by (simp add: format_row_seeded[where dt = dt])
      with True that show False by (auto simp: list_all_iff)
    qed
    then have "map (\<lambda>x. the (format_row sf fmt x)) (rows df) = rows df"
      using sd by (intro map_idI) (simp add: format_row_seeded[where dt = dt])
    then show ?thesis using True by (simp add: format_time_def those_map)
  next
    case False
    then show ?thesis by (simp add: format_time_def those_map)
  qed
  with mem st sd None show ?thesis by (auto simp: seeded_def)
next
  case (Some s)
  have all: "list_all (\<lambda>x. format_row sf fmt x \<noteq> None) (rows df)"
    using sd Some by (auto simp: list_all_iff format_row_seeded[where dt = dt])
  then have "rows (format_time sf fmt df) = map (\<lambda>x. the (format_row sf fmt x)) (rows df)"
    by (simp add: format_time_def those_map)
  with mem obtain r where r: "r \<in> set (rows df)" "r' = the (format_row sf fmt r)"
    by auto
  with sd have "seeded dt r" by simp
  from format_row_seeded[OF this, of sf fmt] r(2) Some st show ?thesis
    by (auto simp: started_by_id_def update_conv' split: if_splits)
qed

lemma format_time_started_iff:
  assumes sd: "\<forall>r\<in>set (rows df). seeded dt r"
    and all: "\<forall>r\<in>set (rows df). started_by_id r"
  shows "\<forall>r\<in>set (rows (format_time sf fmt df)). started_by_id r"
proof (cases "list_all (\<lambda>x. format_row sf fmt x \<noteq> None) (rows df)")
  case True
  then have eq: "rows (format_time sf fmt df) = map (\<lambda>x. the (format_row sf fmt x)) (rows df)"
    by (simp add: format_time_def those_map)
  show ?thesis
  proof
    fix r' assume "r' \<in> set (rows (format_time sf fmt df))"
    with eq obtain r where r: "r \<in> set (rows df)" "r' = the (format_row sf fmt r)" by auto
    with sd all have s: "seeded dt r" "started_by_id r" by auto
    from True r(1) have "format_row sf fmt r \<noteq> None" by (simp add: list_all_iff)
    with format_row_seeded[OF s(1), of sf fmt] s(2) r(2) show "started_by_id r'"
      by (auto simp: started_by_id_def update_conv')
  qed
next
  case False
  then show ?thesis using all by (simp add: format_time_def those_map)
qed

lemma build_table_Time: "build_table strict recs = Inr df \<Longrightarrow> ''Time'' \<in> set (columns df)"
  by (auto simp: build_table_def Let_def split: if_splits)

lemma parse_Inr_Time:
  "parse_yuma_almanac p ad strict = Inr df \<Longrightarrow> ''Time'' \<in> set (columns df) \<and> path_file p \<noteq> None"
  by (auto simp: parse_yuma_almanac_def parse_lines_def build_table_Time
        split: option.splits if_splits)

lemma yumaread_Some:
  assumes "yumaread sf p tf strict = Some df"
  obtains f ls df0 where "path_file p = Some f" "file_lines f = Some ls"
    "parse_yuma_almanac p (filename_date (path_name p)) strict = Inr df0"
    "rows df = rows (case tf of None \<Rightarrow> df0
                     | Some fmt \<Rightarrow> if fmt = [] then df0 else format_time sf fmt df0)"
proof -
  from assms obtain f df0 where f: "path_file p = Some f"
    and p: "parse_yuma_almanac p (filename_date (path_name p)) strict = Inr df0"
    and r: "df = set_index ''Time'' (case tf of None \<Rightarrow> df0
                     | Some fmt \<Rightarrow> if fmt = [] then df0 else format_time sf fmt df0)"
    by (auto simp: yumaread_def yumaread_body_def split: option.splits sum.splits if_splits)
  from p f obtain ls where l: "file_lines f = Some ls"
    by (auto simp: parse_yuma_almanac_def split: option.splits)
  from r have "rows df = rows (case tf of None \<Rightarrow> df0
                     | Some fmt \<Rightarrow> if fmt = [] then df0 else format_time sf fmt df0)"
    by (simp add: set_index_def)
  with f l p that show thesis by blast
qed

lemma yumaread_time_cells:
  assumes "yumaread strftime p time_format strict = Some df" and "path_file p = Some f"
  shows "\<forall>r\<in>set (rows df). started_by_id r \<longrightarrow>
            map_of r ''Time'' =
              Some (case time_format of
                      None \<Rightarrow> PyTime (case filename_date (path_name p) of
                                        None \<Rightarrow> file_mtime f | Some d \<Rightarrow> d)
                    | Some fmt \<Rightarrow>
                        if fmt = []
                        then PyTime (case filename_date (path_name p) of
                                       None \<Rightarrow> file_mtime f | Some d \<Rightarrow> d)
                        else (case strftime fmt (case filename_date (path_name p) of
                                                   None \<Rightarrow> file_mtime f | Some d \<Rightarrow> d) of
                                None \<Rightarrow> PyTime (case filename_date (path_name p) of
                                                  None \<Rightarrow> file_mtime f | Some d \<Rightarrow> d)
                              | Some s \<Rightarrow> PyStr s))"
proof -
  let ?dt = "case filename_date (path_name p) of None \<Rightarrow> file_mtime f | Some d \<Rightarrow> d"
  from assms obtain ls df0 where l: "file_lines f = Some ls"
    and p: "parse_yuma_almanac p (filename_date (path_name p)) strict = Inr df0"
    and r: "rows df = rows (case time_format of None \<Rightarrow> df0
                     | Some fmt \<Rightarrow> if fmt = [] then df0 else format_time strftime fmt df0)"
    by (auto elim: yumaread_Some)
  have sd: "\<forall>r\<in>set (rows df0). seeded ?dt r"
    using seeded_rows[OF p assms(2) l] by simp
  show ?thesis
  proof (intro ballI impI)
    fix r' assume mem: "r' \<in> set (rows df)" and st: "started_by_id r'"
    show "map_of r' ''Time'' =
              Some (case time_format of
                      None \<Rightarrow> PyTime ?dt
                    | Some fmt \<Rightarrow>
                        if fmt = [] then PyTime ?dt
                        else (case strftime fmt ?dt of None \<Rightarrow> PyTime ?dt | Some s \<Rightarrow> PyStr s))"
    proof (cases "\<exists>fmt. time_format = Some fmt \<and> fmt \<noteq> []")
      case True
      then obtain fmt where tf: "time_format = Some fmt" "fmt \<noteq> []" by blast
      with mem r have "r' \<in> set (rows (format_time strftime fmt df0))" by simp
      from format_time_started[OF sd this st] tf show ?thesis by simp
    next
      case False
      then have "rows df = rows df0" using r by (auto split: option.splits)
      with mem sd st have "map_of r' ''Time'' = Some (PyTime ?dt)" by (auto simp: seeded_def)
      with False show ?thesis by (auto split: option.splits)
    qed
  qed
qed

lemma yumaread_all_started:
  assumes "yumaread strftime p time_format strict = Some df"
    and "path_file p = Some f" and "file_lines f = Some ls" and "well_formed ls"
  shows "\<forall>r\<in>set (rows df). started_by_id r"
proof -
  let ?dt = "case filename_date (path_name p) of None \<Rightarrow> file_mtime f | Some d \<Rightarrow> d"
  from assms(1,2) obtain df0 where
    p: "parse_yuma_almanac p (filename_date (path_name p)) strict = Inr df0"
    and r: "rows df = rows (case time_format of None \<Rightarrow> df0
                     | Some fmt \<Rightarrow> if fmt = [] then df0 else format_time strftime fmt df0)"
    by (auto elim: yumaread_Some)
  have sd: "\<forall>r\<in>set (rows df0). seeded ?dt r"
    using seeded_rows[OF p assms(2,3)] by simp
  have "\<forall>r\<in>set (close_record init_state). started_by_id r"
    by (simp add: close_record_def init_state_def)
  from started_scan[OF this disjI2[OF assms(4)]] have all0: "\<forall>r\<in>set (rows df0). started_by_id r"
    by (simp add: parse_yuma_almanac_Inr[OF p assms(2,3)])
  show ?thesis
  proof (cases "\<exists>fmt. time_format = Some fmt \<and> fmt \<noteq> []")
    case True
    then obtain fmt where tf: "time_format = Some fmt" "fmt \<noteq> []" by blast
    from format_time_started_iff[OF sd all0, of strftime fmt] tf r show ?thesis by simp
  next
    case False
    then have "rows df = rows df0" using r by (auto split: option.splits)
    with all0 show ?thesis by simp
  qed
qed

lemma dated_search: "re_search_date (path_name dated_path) = Some (2024, 3, 5)"
  by (simp add: dated_path_def dated_name_def date_match_at_def text_defs)

lemma dated_read_plain:
  "yumaread strftime_basic dated_path None True = Some (set_index ''Time'' dated_table)"
proof -
  have "path_file dated_path \<noteq> None" by (simp add: dated_path_def)
  moreover have "''Time'' \<in> set (columns dated_table)" by (simp add: dated_table_def)
  ultimately show ?thesis
    by (auto simp: yumaread_def yumaread_body_def dated_path_name dated_name_date dated_parse)
qed

lemma after_colon_prefix:
  "CHR '':'' \<in> set p \<Longrightarrow> after_colon (p @ t) \<noteq> None"
  by (induction p) auto

lemma after_colon_startswith:
  "startswith line p \<Longrightarrow> CHR '':'' \<in> set p \<Longrightarrow> after_colon line \<noteq> None"
  using after_colon_prefix[of p] by (auto simp: startswith_iff)

lemma field_map_colon: "(field, key, conv) \<in> set field_map \<Longrightarrow> CHR '':'' \<in> set field"
  by (auto simp: field_map_def)

lemma parse_prn_value_text:
  "is_id_line l \<Longrightarrow>
     parse_prn (strip l) = (case py_int (value_text l) of None \<Rightarrow> PyNone | Some n \<Rightarrow> PyInt n)"
  using after_colon_startswith[of "strip l" "''ID:''"]
  by (auto simp: is_id_line_def parse_prn_def value_text_def split: option.splits)

lemma field_value_value_text:
  assumes "match_field field_map (strip l) = Some (key, conv)"
  shows "field_value conv (strip l) =
           (case convert conv (value_text l) of None \<Rightarrow> PyNone | Some v \<Rightarrow> v)"
proof -
  from match_field_mem[OF assms] obtain field where
    "(field, key, conv) \<in> set field_map" "startswith (strip l) field" by blast
  then have "after_colon (strip l) \<noteq> None"
    using after_colon_startswith field_map_colon by blast
  then show ?thesis by (auto simp: field_value_def value_text_def)
qed

lemma scan_line_field:
  assumes "is_field_line l" and "match_field field_map (strip l) = Some (key, conv)"
  shows "scan_line d st l =
           st\<lparr>current := AList.update key (field_value conv (strip l)) (current st)\<rparr>"
  using assms by (simp add: is_field_line_def scan_line_other set_field_def)

lemma records_no_id:
  "\<forall>x\<in>set blk. \<not> is_id_line x \<Longrightarrow> records (scan d st blk) = records st"
proof (induction blk arbitrary: st)
  case Nil
  then show ?case by (simp add: scan_nil)
next
  case (Cons x blk)
  from Cons.prems records_step[of d st x] have "records (scan_line d st x) = records st" by auto
  with Cons show ?case by (simp add: scan_cons)
qed

lemma field_key_scan_line:
  assumes "field_key l = Some key"
  shows "scan_line d st l = st\<lparr>current := AList.update key (field_cell l) (current st)\<rparr>"
proof -
  from assms obtain conv where f: "is_field_line l"
    and m: "match_field field_map (strip l) = Some (key, conv)"
    by (auto simp: field_key_def split: if_splits)
  from scan_line_field[OF f m] m show ?thesis by (simp add: field_cell_def)
qed

lemma other_lines_keep_key:
  "\<forall>x\<in>set post. \<not> is_id_line x \<and> field_key x \<noteq> Some key \<Longrightarrow>
     map_of (current (scan d st post)) key = map_of (current st) key"
proof (induction post arbitrary: st)
  case Nil
  then show ?case by (simp add: scan_nil)
next
  case (Cons x post)
  have "map_of (current (scan_line d st x)) key = map_of (current st) key"
    using scan_line_cases[of x d st]
  proof (elim disjE conjE exE)
    assume "current (scan_line d st x) = current st"
    then show ?thesis by simp
  next
    assume "is_id_line x"
    with Cons.prems show ?thesis by simp
  next
    fix k conv
    assume f: "is_field_line x" and m: "match_field field_map (strip x) = Some (k, conv)"
      and eq: "scan_line d st x =
                 st\<lparr>current := AList.update k (field_value conv (strip x)) (current st)\<rparr>"
    from f m have "field_key x = Some k" by (simp add: field_key_def)
    with Cons.prems have "k \<noteq> key" by auto
    then show ?thesis by (simp add: eq update_conv')
  qed
  with Cons show ?case by (simp add: scan_cons)
qed












lemma week_scan_line: "\<not> is_header l \<Longrightarrow> week (scan_line d st l) = week st"
  using scan_line_cases[of l d st]
  by (cases "is_id_line l")
     (auto simp: scan_line_id start_record_def scan_line_other set_field_def split: option.splits)

lemma week_scan: "list_all (\<lambda>x. \<not> is_header x) post \<Longrightarrow> week (scan d st post) = week st"
  by (induction post arbitrary: st) (simp_all add: scan_nil scan_cons week_scan_line)


lemma current_kept:
  "current st \<noteq> [] \<Longrightarrow>
     \<exists>c more. close_record (scan d st post) = records st @ c # more \<and>
        map_of c ''Week'' = map_of (current st) ''Week'' \<and>
        map_of c ''PRN'' = map_of (current st) ''PRN''"
proof (induction post arbitrary: st)
  case Nil
  then show ?case by (simp add: scan_nil close_record_def)
next
  case (Cons x post)
  show ?case
    using scan_line_cases[of x d st]
  proof (elim disjE conjE exE)
    assume "records (scan_line d st x) = records st" "current (scan_line d st x) = current st"
    with Cons.IH[of "scan_line d st x"] Cons.prems show ?thesis by (simp add: scan_cons)
  next
    assume eq: "scan_line d st x = start_record d st (strip x)"
    have "current (start_record d st (strip x)) \<noteq> []"
      by (simp add: start_record_def update_nonempty)
    from Cons.IH[OF this] Cons.prems show ?thesis
      by (auto simp: scan_cons eq start_record_def)
  next
    fix key conv
    assume k: "key \<noteq> ''Week''" "key \<noteq> ''PRN''"
      and eq: "scan_line d st x =
                 st\<lparr>current := AList.update key (field_value conv (strip x)) (current st)\<rparr>"
    have "current (st\<lparr>current := AList.update key (field_value conv (strip x)) (current st)\<rparr>) \<noteq> []"
      by (simp add: update_nonempty)
    from Cons.IH[OF this] k show ?thesis
      by (auto simp: scan_cons eq update_conv')
  qed
qed




text \<open>
  The failures of the parser on a file it can read, case by case: the three the
  specification names, and a fourth, the \<open>KeyError\<close> of the column \<open>Time\<close>, which
  only the lenient mode can reach.
\<close>

lemma parse_failure_cases:
  assumes "path_file p = Some f" and "file_lines f = Some ls"
  shows "parse_yuma_almanac p ad strict = Inl e \<longleftrightarrow>
           (ls = [] \<and> e = EmptyInput) \<or>
           (ls \<noteq> [] \<and>
            build_table strict
              (close_record (scan (case ad of None \<Rightarrow> file_mtime f | Some d \<Rightarrow> d) init_state ls))
              = Inl e)"
  using assms by (auto simp: parse_yuma_almanac_def parse_lines_def)

lemma strict_never_KeyError: "build_table True recs \<noteq> Inl (KeyError k)"
  by (auto simp: build_table_def Let_def required_fields_def)

lemma empty_input_fails:
  "parse_yuma_almanac empty_path ad strict = Inl EmptyInput"
  by (simp add: parse_yuma_almanac_def empty_path_def)

lemma strict_orphan_fields_missing:
  "parse_yuma_almanac orphan_path None True
     = Inl (MissingRequiredFields [''PRN'', ''Week'', ''Time''])"
  by (simp add: orphan_path_def orphan_lines_def text_defs scan_defs table_defs)

lemma null_prn_strict:
  "parse_yuma_almanac null_prn_path None True = Inl (MissingRequiredFields [''PRN''])"
  by (simp add: null_prn_path_def null_prn_lines_def text_defs scan_defs table_defs)

lemma null_prn_lenient:
  "parse_yuma_almanac null_prn_path None False =
     Inr \<lparr>rows = [[(''Week'', PyInt 175), (''Time'', PyTime (DateTime 2024 6 1 8 30 0 0)),
                   (''PRN'', PyNone), (''Health'', PyInt 0)]],
          columns = [''Week'', ''Time'', ''PRN'', ''Health''],
          index_name = None\<rparr>"
  by (simp add: null_prn_path_def null_prn_lines_def text_defs scan_defs table_defs)

lemma sample_read_plain:
  "yumaread strftime_basic sample_path None True = Some (set_index ''Time'' sample_table)"
proof -
  have "filename_date (path_name sample_path) = None"
    by (simp add: sample_path_def filename_date_def date_match_at_def text_defs)
  moreover have "path_file sample_path \<noteq> None" by (simp add: sample_path_def)
  moreover have "''Time'' \<in> set (columns sample_table)" by (simp add: sample_table_def)
  ultimately show ?thesis
    by (auto simp: yumaread_def yumaread_body_def sample_parse_table)
qed

lemma quiet_lines_keep_state:
  "\<forall>x\<in>set ls. \<not> is_id_line x \<and> \<not> is_field_line x \<Longrightarrow>
     records (scan d st ls) = records st \<and> current (scan d st ls) = current st"
proof (induction ls arbitrary: st)
  case Nil
  then show ?case by (simp add: scan_nil)
next
  case (Cons x ls)
  from Cons.prems scan_line_cases[of x d st]
  have "records (scan_line d st x) = records st \<and> current (scan_line d st x) = current st"
    by auto
  with Cons.IH[of "scan_line d st x"] Cons.prems show ?case by (simp add: scan_cons)
qed

lemma no_id_current:
  "\<forall>x\<in>set ls. \<not> is_id_line x \<Longrightarrow>
     map_of (current (scan d st ls)) ''PRN'' = map_of (current st) ''PRN'' \<and>
     (current st \<noteq> [] \<or> (\<exists>x\<in>set ls. is_field_line x) \<longleftrightarrow> current (scan d st ls) \<noteq> [])"
proof (induction ls arbitrary: st)
  case Nil
  then show ?case by (simp add: scan_nil)
next
  case (Cons x ls)
  from Cons.prems have nx: "\<not> is_id_line x" and rest: "\<forall>x\<in>set ls. \<not> is_id_line x" by simp_all
  have step: "map_of (current (scan_line d st x)) ''PRN'' = map_of (current st) ''PRN'' \<and>
              (current (scan_line d st x) \<noteq> [] \<longleftrightarrow> current st \<noteq> [] \<or> is_field_line x)"
    using scan_line_cases[of x d st] nx
    by (elim disjE conjE exE) (auto simp: update_conv' update_nonempty)
  from Cons.IH[OF rest, of "scan_line d st x"] step show ?case
    by (auto simp: scan_cons)
qed

lemma id_line_started:
  assumes "l \<in> set ls" and "is_id_line l"
  shows "\<exists>r\<in>set (close_record (scan d st ls)). started_by_id r"
proof -
  from assms(1) obtain pre post where ls: "ls = pre @ l # post" by (auto simp: in_set_conv_decomp)
  let ?s = "scan_line d (scan d st pre) l"
  have eq: "?s = start_record d (scan d st pre) (strip l)" using assms(2) by (rule scan_line_id)
  have ne: "current ?s \<noteq> []" by (simp add: eq start_record_def update_nonempty)
  have st: "map_of (current ?s) ''PRN'' \<noteq> None"
    by (simp add: eq start_record_def update_conv')
  from current_kept[OF ne, of d post] obtain c more where
    "close_record (scan d ?s post) = records ?s @ c # more"
    "map_of c ''PRN'' = map_of (current ?s) ''PRN''" by blast
  with st show ?thesis
    by (auto simp: ls scan_append scan_cons started_by_id_def)
qed

lemma columns_Time:
  "''Time'' \<in> set (columns (DataFrame rs)) \<longleftrightarrow> (\<exists>r\<in>set rs. map_of r ''Time'' \<noteq> None)"
  by (auto simp: columns_DataFrame map_of_eq_None_iff)

text \<open>
  The lenient mode on a file that can be read and is not empty: a table when the input has
  an \<open>ID:\<close> line; the \<open>KeyError\<close> when it has none but has a field line; and no
  records when it has neither.
\<close>

lemma lenient_cases:
  assumes "path_file p = Some f" and "file_lines f = Some ls" and "ls \<noteq> []"
  shows "parse_yuma_almanac p ad False =
           (if \<exists>l\<in>set ls. is_id_line l
            then Inr (DataFrame (close_record
                   (scan (case ad of None \<Rightarrow> file_mtime f | Some d \<Rightarrow> d) init_state ls)))
            else if \<exists>l\<in>set ls. is_field_line l then Inl (KeyError ''Time'')
            else Inl NoRecordsProduced)"
proof -
  let ?d = "case ad of None \<Rightarrow> file_mtime f | Some d \<Rightarrow> d"
  let ?recs = "close_record (scan ?d init_state ls)"
  have p: "parse_yuma_almanac p ad False = build_table False ?recs"
    using assms by (simp add: parse_yuma_almanac_def parse_lines_def)
  have sd: "\<forall>r\<in>set ?recs. seeded ?d r"
    by (intro seeded_scan) (simp add: close_record_def init_state_def)
  show ?thesis
  proof (cases "\<exists>l\<in>set ls. is_id_line l")
    case True
    then obtain l where "l \<in> set ls" "is_id_line l" by blast
    from id_line_started[OF this, of ?d init_state] obtain r where
      r: "r \<in> set ?recs" "started_by_id r" by blast
    with sd have "map_of r ''Time'' \<noteq> None" by (auto simp: seeded_def)
    with r have "''Time'' \<in> set (columns (DataFrame ?recs))" by (auto simp: columns_Time)
    moreover from r have "?recs \<noteq> []" by auto
    ultimately show ?thesis using True by (simp add: p build_table_def)
  next
    case False
    then have nid: "\<forall>x\<in>set ls. \<not> is_id_line x" by blast
    have rs: "records (scan ?d init_state ls) = []"
      using records_no_id[OF nid, of ?d init_state] by (simp add: init_state_def)
    from no_id_current[OF nid, of ?d init_state]
    have cur: "map_of (current (scan ?d init_state ls)) ''PRN'' = None"
      "current (scan ?d init_state ls) \<noteq> [] \<longleftrightarrow> (\<exists>x\<in>set ls. is_field_line x)"
      by (simp_all add: init_state_def)
    show ?thesis
    proof (cases "\<exists>l\<in>set ls. is_field_line l")
      case True
      with cur rs have rec: "?recs = [current (scan ?d init_state ls)]"
        by (simp add: close_record_def)
      with sd cur(1) have "map_of (current (scan ?d init_state ls)) ''Time'' = None"
        by (simp add: seeded_def started_by_id_def)
      then have "''Time'' \<notin> set (columns (DataFrame ?recs))"
        by (simp add: columns_Time rec)
      with rec True False show ?thesis by (simp add: p build_table_def)
    next
      case nf: False
      with cur rs have "?recs = []" by (simp add: close_record_def)
      with nf False show ?thesis by (simp add: p build_table_def)
    qed
  qed
qed

section \<open>The number and the order of the records\<close>

text \<open>
  Claim C1. On a well-formed input, the table \<^verbatim>\<open>parse_yuma_almanac\<close> returns has as
  many records as the input has lines that begin with \<open>ID:\<close> (once stripped, as the loop
  reads them), and the records stand in file order: the PRN column of the table is the
  list of the PRN values of the \<open>ID:\<close> lines, one after the other.
\<close>

theorem record_count_and_order:
  assumes "path_file p = Some f" and "file_lines f = Some ls"
    and "well_formed ls"
    and "parse_yuma_almanac p ad strict = Inr df"
  shows "length (rows df) = length (filter is_id_line ls) \<and>
         map (\<lambda>r. cell r ''PRN'') (rows df)
           = map (\<lambda>l. parse_prn (strip l)) (filter is_id_line ls)"
proof -
  let ?d = "case ad of None \<Rightarrow> file_mtime f | Some d \<Rightarrow> d"
  have r: "rows df = close_record (scan ?d init_state ls)"
    using assms(4,1,2) by (rule parse_yuma_almanac_Inr)
  have "map (\<lambda>r. cell r ''PRN'') (close_record (scan ?d init_state ls)) =
          map (\<lambda>r. cell r ''PRN'') (close_record init_state)
          @ map (\<lambda>l. parse_prn (strip l)) (filter is_id_line ls)"
    using assms(3) by (intro scan_prn) simp
  then have m: "map (\<lambda>r. cell r ''PRN'') (rows df)
                 = map (\<lambda>l. parse_prn (strip l)) (filter is_id_line ls)"
    by (simp add: r close_record_def init_state_def)
  from map_eq_imp_length_eq[OF m] show ?thesis using m by simp
qed

text \<open>
  The sample almanac is well formed, has two \<open>ID:\<close> lines and parses to two records,
  with the PRNs 1 and 2 in that order.
\<close>

theorem record_count_and_order_witness:
  "well_formed sample_lines \<and>
   (\<exists>df. parse_yuma_almanac sample_path None True = Inr df \<and>
      length (rows df) = 2 \<and> length (filter is_id_line sample_lines) = 2 \<and>
      map (\<lambda>r. cell r ''PRN'') (rows df) = [PyInt 1, PyInt 2])"
proof -
  have f: "path_file sample_path = Some sample_file" by (simp add: sample_path_def)
  have l: "file_lines sample_file = Some sample_lines" by (simp add: sample_file_def)
  have n: "filter is_id_line sample_lines
             = [''ID:                         01\<newline>'', ''ID:                         02\<newline>'']"
    by (simp add: sample_lines_def is_id_line_def text_defs)
  have p: "map (\<lambda>l. parse_prn (strip l)) (filter is_id_line sample_lines) = [PyInt 1, PyInt 2]"
    unfolding n by (simp add: parse_prn_def text_defs)
  from record_count_and_order[OF f l sample_well_formed sample_parse]
  show ?thesis
    using sample_well_formed sample_parse p by (simp add: n)
qed

section \<open>Exponents written with D\<close>



section \<open>The failures of the parser\<close>

text \<open>
  Claim C3, which the code does not keep. The claim allows three failures: an empty input,
  no record at all, and, under \<^verbatim>\<open>strict\<close>, a required column that is null or absent
  in every record. There is a fourth. In lenient mode an input whose only content lines are
  field lines produces a record without the key \<open>Time\<close>, the table has no such column,
  and \<^verbatim>\<open>df['Time']\<close> on line 112 raises a \<^verbatim>\<open>KeyError\<close>, where the function's
  documentation promises a best-effort table for \<^verbatim>\<open>strict=False\<close>. The theorem runs
  the parser on such an input.
\<close>

theorem non_strict_orphan_fields_raise_KeyError:
  "parse_yuma_almanac orphan_path None False = Inl (KeyError ''Time'')"
  by (simp add: orphan_path_def orphan_lines_def text_defs scan_defs table_defs)

section \<open>A conversion that fails\<close>

text \<open>
  Claim C4. An \<open>ID:\<close> line whose payload is not an integer still starts a record: the
  record in progress is closed as usual, and the new record holds the current week, the
  epoch and a null PRN. A field line whose value text does not convert sets its own key to
  null and changes no other key, no closed record and not the week. Neither case stops the
  scan, which goes on with the next line from the state the line left; the scan does not
  look at \<^verbatim>\<open>strict\<close> at all.
\<close>

theorem conversion_failure_sets_null:
  "(is_id_line l \<and> py_int (value_text l) = None \<longrightarrow>
      scan_line d st l =
        \<lparr>records = close_record st,
         current = [(''Week'', week_value (week st)), (''Time'', PyTime d), (''PRN'', PyNone)],
         week = week st\<rparr>)
   \<and> (is_field_line l \<and> match_field field_map (strip l) = Some (key, conv) \<and>
        convert conv (value_text l) = None \<longrightarrow>
        scan_line d st l = st\<lparr>current := AList.update key PyNone (current st)\<rparr> \<and>
        map_of (current (scan_line d st l)) key = Some PyNone \<and>
        (\<forall>k. k \<noteq> key \<longrightarrow> map_of (current (scan_line d st l)) k = map_of (current st) k) \<and>
        records (scan_line d st l) = records st \<and> week (scan_line d st l) = week st)
   \<and> scan d st (pre @ l # post) = scan d (scan_line d (scan d st pre) l) post"
proof (intro conjI impI)
  assume h: "is_id_line l \<and> py_int (value_text l) = None"
  then have "parse_prn (strip l) = PyNone" by (simp add: parse_prn_value_text)
  with h show "scan_line d st l =
        \<lparr>records = close_record st,
         current = [(''Week'', week_value (week st)), (''Time'', PyTime d), (''PRN'', PyNone)],
         week = week st\<rparr>"
    by (simp add: scan_line_id start_record_def close_record_def)
next
  assume h: "is_field_line l \<and> match_field field_map (strip l) = Some (key, conv) \<and>
        convert conv (value_text l) = None"
  then have v: "field_value conv (strip l) = PyNone" by (simp add: field_value_value_text)
  from h have eq: "scan_line d st l = st\<lparr>current := AList.update key PyNone (current st)\<rparr>"
    by (simp add: scan_line_field v)
  then show "scan_line d st l = st\<lparr>current := AList.update key PyNone (current st)\<rparr>" .
  show "map_of (current (scan_line d st l)) key = Some PyNone"
    by (simp add: eq update_conv')
  show "\<forall>k. k \<noteq> key \<longrightarrow> map_of (current (scan_line d st l)) k = map_of (current st) k"
    by (simp add: eq update_conv')
  show "records (scan_line d st l) = records st" by (simp add: eq)
  show "week (scan_line d st l) = week st" by (simp add: eq)
next
  show "scan d st (pre @ l # post) = scan d (scan_line d (scan d st pre) l) post"
    by (simp add: scan_append scan_cons)
qed

text \<open>
  A record in progress meets an \<open>ID:\<close> line with the payload \<open>G01\<close>, and a
  \<open>Health:\<close> line with the value \<open>n/a\<close>.
\<close>

theorem conversion_failure_sets_null_witness:
  "is_id_line bad_id_line \<and> py_int (value_text bad_id_line) = None
   \<and> scan_line (DateTime 2024 3 5 0 0 0 0) open_state bad_id_line =
        \<lparr>records = [current open_state],
         current = [(''Week'', PyInt 175), (''Time'', PyTime (DateTime 2024 3 5 0 0 0 0)),
                    (''PRN'', PyNone)],
         week = Some 175\<rparr>
   \<and> is_field_line bad_health_line
   \<and> match_field field_map (strip bad_health_line) = Some (''Health'', ToInt)
   \<and> convert ToInt (value_text bad_health_line) = None
   \<and> scan_line (DateTime 2024 3 5 0 0 0 0) open_state bad_health_line =
        open_state\<lparr>current := [(''Week'', PyInt 175), (''Time'', PyTime (DateTime 2024 3 5 0 0 0 0)),
                                (''PRN'', PyInt 1), (''Health'', PyNone)]\<rparr>"
proof -
  have a: "is_id_line bad_id_line" by (simp add: bad_id_line_def is_id_line_def text_defs)
  have b: "py_int (value_text bad_id_line) = None"
    by (simp add: bad_id_line_def value_text_def text_defs)
  have c: "is_field_line bad_health_line"
    by (simp add: bad_health_line_def line_defs text_defs field_map_def)
  have e: "match_field field_map (strip bad_health_line) = Some (''Health'', ToInt)"
    by (simp add: bad_health_line_def text_defs field_map_def)
  have f: "convert ToInt (value_text bad_health_line) = None"
    by (simp add: bad_health_line_def value_text_def text_defs)
  have g: "close_record open_state = [current open_state]"
    by (simp add: close_record_def open_state_def)
  from conversion_failure_sets_null[where l = bad_id_line and d = "DateTime 2024 3 5 0 0 0 0"
      and st = open_state]
    conversion_failure_sets_null[where l = bad_health_line and d = "DateTime 2024 3 5 0 0 0 0"
      and st = open_state and key = "''Health''" and conv = ToInt]
  show ?thesis
    using a b c e f by (simp add: g) (simp add: open_state_def week_value_def)
qed

section \<open>Week and Time of every record\<close>




section \<open>Week headers\<close>



section \<open>Where the epoch comes from\<close>

text \<open>
  Claim C7 as stated fails. With no epoch supplied, two files of the same lines and
  different modification times parse to different tables: the parser itself reads the
  modification time (lines 39 to 43).
\<close>

theorem parser_reads_mtime_counterexample:
  "file_lines sample_file = file_lines sample_file_touched \<and>
   parse_yuma_almanac sample_path None True \<noteq> parse_yuma_almanac sample_path_touched None True"
proof -
  have "parse_yuma_almanac sample_path_touched None True =
     Inr \<lparr>rows =
            [[(''Week'', PyInt 175), (''Time'', PyTime (DateTime 2024 6 2 9 0 0 0)),
              (''PRN'', PyInt 1), (''Health'', PyInt 0),
              (''Eccentricity'', PyFloat (Finite (1234567 / 100000000)))],
             [(''Week'', PyInt 175), (''Time'', PyTime (DateTime 2024 6 2 9 0 0 0)),
              (''PRN'', PyInt 2), (''Health'', PyInt 63)]],
          columns = [''Week'', ''Time'', ''PRN'', ''Health'', ''Eccentricity''],
          index_name = None\<rparr>"
    by (simp add: sample_path_touched_def sample_file_touched_def sample_lines_def
          text_defs scan_defs table_defs)
  then show ?thesis
    by (simp add: sample_parse sample_file_def sample_file_touched_def)
qed

text \<open>
  Claim C7, amended. With an epoch supplied, the table the parser returns depends on the
  lines, the epoch and \<^verbatim>\<open>strict\<close> only, not on the modification time or the name of
  the file. With no epoch supplied, the parser itself takes the file's modification time as
  the epoch. \<^verbatim>\<open>yumaread\<close> reads no file metadata: under a name with a valid date its
  result does not depend on the modification time, and otherwise it passes no epoch, so
  that the records it returns carry the file's modification time.
\<close>

theorem epoch_resolution:
  "(file_lines fa = file_lines fb \<longrightarrow>
      parse_yuma_almanac \<lparr>path_name = na, path_file = Some fa\<rparr> (Some d) strict
        = parse_yuma_almanac \<lparr>path_name = nb, path_file = Some fb\<rparr> (Some d) strict)
   \<and> (path_file p = Some f \<longrightarrow>
        parse_yuma_almanac p None strict = parse_yuma_almanac p (Some (file_mtime f)) strict)
   \<and> (file_lines fa = file_lines fb \<and> filename_date n \<noteq> None \<longrightarrow>
        yumaread strftime \<lparr>path_name = n, path_file = Some fa\<rparr> time_format strict
          = yumaread strftime \<lparr>path_name = n, path_file = Some fb\<rparr> time_format strict)
   \<and> (filename_date (path_name p) = None \<and> path_file p = Some f \<and>
        yumaread strftime p None strict = Some df \<longrightarrow>
        (\<forall>r\<in>set (rows df). started_by_id r \<longrightarrow>
           map_of r ''Time'' = Some (PyTime (file_mtime f))))"
proof (intro conjI impI)
  show "parse_yuma_almanac \<lparr>path_name = na, path_file = Some fa\<rparr> (Some d) strict
        = parse_yuma_almanac \<lparr>path_name = nb, path_file = Some fb\<rparr> (Some d) strict"
    if "file_lines fa = file_lines fb"
    using that by (simp add: parse_yuma_almanac_def split: option.splits)
  show "parse_yuma_almanac p None strict = parse_yuma_almanac p (Some (file_mtime f)) strict"
    if "path_file p = Some f"
    using that by (simp add: parse_yuma_almanac_def split: option.splits)
  show "yumaread strftime \<lparr>path_name = n, path_file = Some fa\<rparr> time_format strict
          = yumaread strftime \<lparr>path_name = n, path_file = Some fb\<rparr> time_format strict"
    if "file_lines fa = file_lines fb \<and> filename_date n \<noteq> None"
    using that by (auto simp: parse_yuma_almanac_def yumaread_def yumaread_body_def
          split: option.splits)
  show "\<forall>r\<in>set (rows df). started_by_id r \<longrightarrow> map_of r ''Time'' = Some (PyTime (file_mtime f))"
    if h: "filename_date (path_name p) = None \<and> path_file p = Some f \<and>
        yumaread strftime p None strict = Some df"
  proof -
    from h have a: "yumaread strftime p None strict = Some df" and b: "path_file p = Some f"
      and c: "filename_date (path_name p) = None" by simp_all
    from yumaread_time_cells[OF a b, unfolded c option.case] show ?thesis .
  qed
qed

text \<open>
  The sample almanac and its copy touched a day later.
\<close>

theorem epoch_resolution_witness:
  "file_lines sample_file = file_lines sample_file_touched
   \<and> parse_yuma_almanac sample_path (Some (DateTime 2024 3 5 0 0 0 0)) True
       = parse_yuma_almanac sample_path_touched (Some (DateTime 2024 3 5 0 0 0 0)) True
   \<and> path_file sample_path = Some sample_file
   \<and> parse_yuma_almanac sample_path None True
       = parse_yuma_almanac sample_path (Some (file_mtime sample_file)) True
   \<and> filename_date dated_name \<noteq> None
   \<and> yumaread strftime_basic \<lparr>path_name = dated_name, path_file = Some sample_file\<rparr> None True
       = yumaread strftime_basic \<lparr>path_name = dated_name, path_file = Some sample_file_touched\<rparr>
           None True
   \<and> filename_date (path_name sample_path) = None
   \<and> yumaread strftime_basic sample_path None True = Some (set_index ''Time'' sample_table)
   \<and> list_all (\<lambda>r. started_by_id r \<and> map_of r ''Time'' = Some (PyTime (file_mtime sample_file)))
        (rows (set_index ''Time'' sample_table))"
proof -
  have l: "file_lines sample_file = file_lines sample_file_touched"
    by (simp add: sample_file_def sample_file_touched_def)
  have p: "path_file sample_path = Some sample_file" by (simp add: sample_path_def)
  have n: "filename_date dated_name \<noteq> None" by (simp add: dated_name_date)
  have u: "filename_date (path_name sample_path) = None"
    by (simp add: sample_path_def filename_date_def date_match_at_def text_defs)
  have s: "list_all started_by_id (rows (set_index ''Time'' sample_table))"
    by (simp add: set_index_def sample_table_def started_by_id_def)
  from epoch_resolution[where fa = sample_file and fb = sample_file_touched
      and na = "''almanac.alm''" and nb = "''almanac.alm''" and d = "DateTime 2024 3 5 0 0 0 0"
      and strict = True and p = sample_path and f = sample_file and n = dated_name
      and strftime = strftime_basic and time_format = None
      and df = "set_index ''Time'' sample_table"]
  show ?thesis
    using l p n u s sample_read_plain
    by (simp add: sample_path_def sample_path_touched_def list_all_iff)
qed

section \<open>The date in the file name\<close>

text \<open>
  Claim C8 as stated fails. Called with its default \<^verbatim>\<open>time_format\<close>, which is
  \<^verbatim>\<open>%Y-%m-%d\<close>, \<^verbatim>\<open>yumaread\<close> returns the \<open>Time\<close> of every record as the text
  \<open>2024-03-05\<close>, not as the timestamp of that midnight.
\<close>

theorem default_format_counterexample:
  "yumaread strftime_basic dated_path (Some ''%Y-%m-%d'') True =
     Some \<lparr>rows =
        [[(''Week'', PyInt 175), (''Time'', PyStr ''2024-03-05''),
          (''PRN'', PyInt 1), (''Health'', PyInt 0),
          (''Eccentricity'', PyFloat (Finite (1234567 / 100000000)))],
         [(''Week'', PyInt 175), (''Time'', PyStr ''2024-03-05''),
          (''PRN'', PyInt 2), (''Health'', PyInt 63)]],
      columns = [''Week'', ''PRN'', ''Health'', ''Eccentricity''],
      index_name = Some ''Time''\<rparr>"
proof -
  have "path_file dated_path \<noteq> None" by (simp add: dated_path_def)
  then show ?thesis
    by (auto simp: yumaread_def yumaread_body_def dated_path_name dated_name_date dated_parse
          dated_table_def format_time_def format_row_def strftime_ymd set_index_def
          simp del: strftime_basic.simps)
qed

text \<open>
  Claim C8, amended. When the first \<^verbatim>\<open>YYYY-MM-DD\<close> pattern of the file name is a
  valid calendar date, every record of the returned table that an \<open>ID:\<close> line started
  (on a well-formed input: every record) has as its \<open>Time\<close> the midnight of that date in
  UTC: as the timestamp itself when \<^verbatim>\<open>time_format\<close> is absent or empty or the
  formatting raises, and else as the text \<^verbatim>\<open>time_format\<close> renders of it. The file's
  modification time plays no part.
\<close>

theorem filename_date_sets_time:
  assumes "re_search_date (path_name p) = Some (y, m, d)" and "make_datetime y m d \<noteq> None"
    and "yumaread strftime p time_format strict = Some df"
  shows "(\<forall>r\<in>set (rows df). started_by_id r \<longrightarrow>
            map_of r ''Time'' =
              Some (case time_format of
                      None \<Rightarrow> PyTime (DateTime y m d 0 0 0 0)
                    | Some fmt \<Rightarrow>
                        if fmt = [] then PyTime (DateTime y m d 0 0 0 0)
                        else (case strftime fmt (DateTime y m d 0 0 0 0) of
                                None \<Rightarrow> PyTime (DateTime y m d 0 0 0 0)
                              | Some s \<Rightarrow> PyStr s)))
         \<and> (\<forall>f ls. path_file p = Some f \<and> file_lines f = Some ls \<and> well_formed ls \<longrightarrow>
               (\<forall>r\<in>set (rows df). started_by_id r))"
proof -
  have fd: "filename_date (path_name p) = Some (DateTime y m d 0 0 0 0)"
    using assms(1,2) by (simp add: filename_date_def make_datetime_def split: if_splits)
  from assms(3) obtain f where f: "path_file p = Some f"
    by (auto elim: yumaread_Some)
  from yumaread_time_cells[OF assms(3) f, unfolded fd option.case]
    yumaread_all_started[OF assms(3)]
  show ?thesis by blast
qed

text \<open>
  The sample almanac under a dated name, read with no \<^verbatim>\<open>time_format\<close>.
\<close>

theorem filename_date_sets_time_witness:
  "re_search_date (path_name dated_path) = Some (2024, 3, 5)
   \<and> make_datetime 2024 3 5 \<noteq> None
   \<and> yumaread strftime_basic dated_path None True = Some (set_index ''Time'' dated_table)
   \<and> list_all (\<lambda>r. started_by_id r \<and> map_of r ''Time'' = Some (PyTime (DateTime 2024 3 5 0 0 0 0)))
        (rows (set_index ''Time'' dated_table))"
proof -
  have m: "make_datetime 2024 3 5 \<noteq> None"
    by (simp add: make_datetime_def days_in_month_def)
  have s: "list_all started_by_id (rows (set_index ''Time'' dated_table))"
    by (simp add: set_index_def dated_table_def started_by_id_def)
  from filename_date_sets_time[OF dated_search m dated_read_plain] s
  show ?thesis
    using dated_search m dated_read_plain by (simp add: list_all_iff)
qed

section \<open>Failures of the reader\<close>

text \<open>
  Claim C9. \<^verbatim>\<open>yumaread\<close> returns \<open>None\<close> exactly when the body of its
  \<^verbatim>\<open>try\<close> block raises, so nothing reaches the caller as an exception: a missing
  source gives \<open>None\<close>, and so does every failure of the parser. A
  \<^verbatim>\<open>time_format\<close> that raises on the \<open>Time\<close> of a record is not fatal: the result
  is the parser's table, indexed by \<open>Time\<close>, with the rows as the parser made them.
\<close>

theorem yumaread_failures_become_None:
  "(path_file p = None \<longrightarrow> yumaread sf p tf strict = None)
   \<and> (parse_yuma_almanac p (filename_date (path_name p)) strict = Inl e \<longrightarrow>
        yumaread sf p tf strict = None)
   \<and> (parse_yuma_almanac p (filename_date (path_name p)) strict = Inr df \<and> fmt \<noteq> [] \<and>
        r \<in> set (rows df) \<and> map_of r ''Time'' = Some (PyTime t) \<and> sf fmt t = None \<longrightarrow>
        yumaread sf p (Some fmt) strict = Some (set_index ''Time'' df) \<and>
        rows (set_index ''Time'' df) = rows df)
   \<and> (yumaread sf p tf strict = None \<longleftrightarrow> (\<exists>e. yumaread_body sf p tf strict = Inl e))"
proof (intro conjI impI)
  show "yumaread sf p tf strict = None" if "path_file p = None"
    using that by (simp add: yumaread_def yumaread_body_def)
  show "yumaread sf p tf strict = None"
    if "parse_yuma_almanac p (filename_date (path_name p)) strict = Inl e"
    using that by (simp add: yumaread_def yumaread_body_def split: option.splits)
  show "yumaread sf p tf strict = None \<longleftrightarrow> (\<exists>e. yumaread_body sf p tf strict = Inl e)"
    by (simp add: yumaread_def split: sum.splits)
  assume h: "parse_yuma_almanac p (filename_date (path_name p)) strict = Inr df \<and> fmt \<noteq> [] \<and>
        r \<in> set (rows df) \<and> map_of r ''Time'' = Some (PyTime t) \<and> sf fmt t = None"
  then have "format_row sf fmt r = None" by (simp add: format_row_def)
  with h have "\<not> list_all (\<lambda>x. format_row sf fmt x \<noteq> None) (rows df)"
    by (auto simp: list_all_iff)
  then have "format_time sf fmt df = df" by (simp add: format_time_def those_map)
  with h parse_Inr_Time[of p "filename_date (path_name p)" strict df]
  show "yumaread sf p (Some fmt) strict = Some (set_index ''Time'' df)"
    by (auto simp: yumaread_def yumaread_body_def)
  show "rows (set_index ''Time'' df) = rows df" by (simp add: set_index_def)
qed

text \<open>
  A path that names no file, the input on which the parser raises a \<^verbatim>\<open>KeyError\<close>,
  and the sample almanac read with a format the formatter does not know.
\<close>

theorem yumaread_failures_become_None_witness:
  "path_file missing_path = None
   \<and> yumaread strftime_basic missing_path (Some ''%Y-%m-%d'') True = None
   \<and> parse_yuma_almanac orphan_path (filename_date (path_name orphan_path)) False
       = Inl (KeyError ''Time'')
   \<and> yumaread strftime_basic orphan_path (Some ''%Y-%m-%d'') False = None
   \<and> parse_yuma_almanac dated_path (filename_date (path_name dated_path)) True = Inr dated_table
   \<and> strftime_basic ''%Q'' (DateTime 2024 3 5 0 0 0 0) = None
   \<and> yumaread strftime_basic dated_path (Some ''%Q'') True = Some (set_index ''Time'' dated_table)
   \<and> rows (set_index ''Time'' dated_table) = rows dated_table"
proof -
  have a: "path_file missing_path = None" by (simp add: missing_path_def)
  have b: "parse_yuma_almanac orphan_path (filename_date (path_name orphan_path)) False
             = Inl (KeyError ''Time'')"
    by (simp add: orphan_path_def orphan_lines_def filename_date_def date_match_at_def
          text_defs scan_defs table_defs)
  have c: "parse_yuma_almanac dated_path (filename_date (path_name dated_path)) True
             = Inr dated_table"
    by (simp add: dated_path_name dated_name_date dated_parse)
  have r: "hd (rows dated_table) \<in> set (rows dated_table)"
    "map_of (hd (rows dated_table)) ''Time'' = Some (PyTime (DateTime 2024 3 5 0 0 0 0))"
    by (simp_all add: dated_table_def)
  from yumaread_failures_become_None[where p = missing_path and sf = strftime_basic
      and tf = "Some ''%Y-%m-%d''" and strict = True]
    yumaread_failures_become_None[where p = orphan_path and sf = strftime_basic
      and tf = "Some ''%Y-%m-%d''" and strict = False and e = "KeyError ''Time''"]
    yumaread_failures_become_None[where p = dated_path and sf = strftime_basic
      and strict = True and df = dated_table and fmt = "''%Q''"
      and r = "hd (rows dated_table)" and t = "DateTime 2024 3 5 0 0 0 0"]
  show ?thesis
    using a b c r strftime_unknown by simp
qed

section \<open>A label that occurs twice\<close>

text \<open>
  Claim C10. Within a block of lines that starts no record, the value a key holds at the
  end is the value written by the last line of the block that carries the key's label,
  null included when that line's conversion fails. The block closes no record, and the
  record that is appended next, by an \<open>ID:\<close> line or at the end of the input, is the
  record in progress with that value.
\<close>

theorem last_occurrence_wins:
  assumes "\<forall>x\<in>set (pre @ l # post). \<not> is_id_line x"
    and "field_key l = Some key"
    and "\<forall>x\<in>set post. field_key x \<noteq> Some key"
  shows "map_of (current (scan d st (pre @ l # post))) key = Some (field_cell l)
         \<and> records (scan d st (pre @ l # post)) = records st
         \<and> close_record (scan d st (pre @ l # post))
             = records st @ [current (scan d st (pre @ l # post))]
         \<and> (is_id_line nxt \<longrightarrow>
              records (scan d st (pre @ l # post @ [nxt]))
                = records st @ [current (scan d st (pre @ l # post))])"
proof -
  let ?s1 = "scan_line d (scan d st pre) l"
  let ?s2 = "scan d st (pre @ l # post)"
  have s2: "?s2 = scan d ?s1 post" by (simp add: scan_append scan_cons)
  have "map_of (current ?s1) key = Some (field_cell l)"
    by (simp add: field_key_scan_line[OF assms(2)] update_conv')
  moreover have "map_of (current (scan d ?s1 post)) key = map_of (current ?s1) key"
    using assms(1,3) by (intro other_lines_keep_key) simp
  ultimately have v: "map_of (current ?s2) key = Some (field_cell l)" by (simp add: s2)
  then have ne: "current ?s2 \<noteq> []" by auto
  have r: "records ?s2 = records st" using assms(1) by (rule records_no_id)
  have c: "close_record ?s2 = records st @ [current ?s2]"
    using ne r by (simp add: close_record_def)
  have n: "records (scan d st (pre @ l # post @ [nxt])) = records st @ [current ?s2]"
    if "is_id_line nxt"
  proof -
    have "scan d st (pre @ l # post @ [nxt]) = scan_line d ?s2 nxt"
      using scan_append[of d st "pre @ l # post" "[nxt]"] by (simp add: scan_cons scan_nil)
    with that ne r show ?thesis by (simp add: scan_line_id start_record_def)
  qed
  from v r c n show ?thesis by blast
qed

text \<open>
  A \<open>Health:\<close> line that converts, followed by one that does not: the record holds null.
\<close>

theorem last_occurrence_wins_witness:
  "list_all (\<lambda>x. \<not> is_id_line x) repeated_health_block
   \<and> field_key bad_health_line = Some ''Health''
   \<and> field_key ''\<newline>'' \<noteq> Some ''Health''
   \<and> field_cell bad_health_line = PyNone
   \<and> map_of (current (scan (DateTime 2024 3 5 0 0 0 0) open_state repeated_health_block))
        ''Health'' = Some PyNone"
proof -
  have blk: "repeated_health_block =
      [''Health:                     000\<newline>'', ''Eccentricity:               0.1234567D-01\<newline>'']
      @ bad_health_line # [''\<newline>'']"
    by (simp add: repeated_health_block_def bad_health_line_def)
  have a: "\<forall>x\<in>set repeated_health_block. \<not> is_id_line x"
    by (simp add: repeated_health_block_def is_id_line_def text_defs)
  have b: "field_key bad_health_line = Some ''Health''"
    by (simp add: bad_health_line_def field_key_def line_defs text_defs field_map_def)
  have c: "\<forall>x\<in>set [''\<newline>'']. field_key x \<noteq> Some ''Health''"
    by (simp add: field_key_def line_defs text_defs field_map_def)
  have e: "field_cell bad_health_line = PyNone"
    by (simp add: bad_health_line_def field_cell_def field_value_def text_defs field_map_def)
  from last_occurrence_wins[OF a[unfolded blk] b c, of "DateTime 2024 3 5 0 0 0 0" open_state]
  show ?thesis
    using a b c e by (simp add: list_all_iff blk)
qed

end
